theory Spec2Isabelle
  imports Complex_Main
begin

section \<open>The SRGAN training model of \<open>src/pytorch/model.py\<close>\<close>

text \<open>
  The file defines two classes, \<open>BaseModel\<close> and \<open>SRGANModel\<close>, that drive the tensor
  framework: they build networks, losses, optimizers and schedulers from a configuration
  and run one training step at a time. The embedding keeps the control flow, the
  attribute updates and the raised exceptions of the Python, and takes everything the
  file calls but does not define (the tensor library, the network factory
  \<open>networks.define_*\<close> and the borrowed loss classes) as a parameter \<open>fw\<close>: a record of
  functions over three abstract types, \<open>'t\<close> for tensors, \<open>'p\<close> for the learnable content
  of a network and \<open>'o\<close> for the state dictionary of an optimizer or scheduler. Every
  theorem holds for every choice of \<open>fw\<close>.

  A method takes the object and returns it updated, or returns the exception it raises
  (\<open>Inl\<close>); what a raising call had already assigned is then not looked at again,
  except by \<open>save\<close>, whose first file is written before it can raise. Messages sent to
  the logger, and \<open>print_network\<close>, which only logs, are left out. Numbers of the
  configuration (weights, rates) are \<open>real\<close>; the code only compares them with \<open>0\<close>
  and hands them to the framework.
\<close>

subsection \<open>Exceptions\<close>

datatype error =
    NotImplementedError string
  | AssertionError string
  | AttributeError string
  | KeyError string
  | IndexError
  | ZeroDivisionError
  | FileNotFoundError string
  | RuntimeError string
  | ValueError string

subsection \<open>Configuration\<close>

text \<open>
  The nested mapping \<open>opt\<close>, with every key the code reads. Keys that the code tests
  for \<open>None\<close> or for truthiness carry an \<open>option\<close>. The keys \<open>opt["is_train"]\<close>,
  \<open>D_update_ratio\<close> and \<open>D_init_iters\<close> are suffixed \<open>_opt\<close> since the model object has
  attributes of the same names; \<open>gp_weigth\<close> is spelled as the code spells it.
\<close>

record train_opt =
  pixel_weight :: real
  pixel_criterion :: string
  feature_weight :: real
  feature_criterion :: string
  gan_type :: string
  gan_weight :: real
  D_update_ratio_opt :: "int option"
  D_init_iters_opt :: "int option"
  gp_weigth :: real
  weight_decay_G :: "real option"
  lr_G :: real
  beta1_G :: real
  weight_decay_D :: "real option"
  lr_D :: real
  beta1_D :: real
  lr_scheme :: string
  lr_steps :: "int list"
  lr_gamma :: real

record path_opt =
  models :: string
  training_state :: string
  pretrain_model_G :: "string option"
  pretrain_model_D :: "string option"

record opt =
  gpu_ids :: "int list option"
  is_train_opt :: bool
  train :: train_opt
  path :: path_opt

subsection \<open>Framework objects\<close>

datatype device = CPU | CUDA

text \<open>
  A network module: its learnable content, the gradients accumulated on it by
  \<open>backward()\<close>, and the train/eval flag. \<open>nn.DataParallel\<close> wraps a module; \<open>.module\<close>
  unwraps it.
\<close>

record 'p module =
  params :: 'p
  grads :: 'p
  training :: bool

datatype 'p network = Plain "'p module" | DataParallel "'p module"

fun module_of :: "'p network \<Rightarrow> 'p module" where
  "module_of (Plain m) = m"
| "module_of (DataParallel m) = m"

fun map_module :: "('p module \<Rightarrow> 'p module) \<Rightarrow> 'p network \<Rightarrow> 'p network" where
  "map_module f (Plain m) = Plain (f m)"
| "map_module f (DataParallel m) = DataParallel (f m)"

text \<open>The loss objects the constructor builds, named by their class and arguments.\<close>

datatype criterion = L1Loss | MSELoss

datatype gan_criterion = GANLoss string real real

datatype gp_criterion = GradientPenaltyLoss device

text \<open>
  \<open>torch.optim.Adam(params, lr, weight_decay, betas)\<close>: the names of the parameters
  handed over, the hyperparameters, and the running state. A scheduler refers to its
  optimizer by the optimizer's position in \<open>self.optimizers\<close>.
\<close>

record 'o optimizer =
  opt_params :: "string list"
  lr :: real
  weight_decay :: real
  betas :: "real \<times> real"
  opt_state :: 'o

record 'o scheduler =
  sched_optimizer :: nat
  milestones :: "int list"
  gamma :: real
  sched_state :: 'o

text \<open>A value of the loss log: a Python float read with \<open>.item()\<close>, or a tensor.\<close>

datatype 't logval = Item 't | Tensor 't

subsection \<open>The framework, as a parameter\<close>

record ('t, 'p, 'o) torch =
  define_G :: "opt \<Rightarrow> 'p network"
  define_D :: "opt \<Rightarrow> 'p network"
  define_F :: "opt \<Rightarrow> bool \<Rightarrow> 'p network"
  module_to :: "device \<Rightarrow> 'p \<Rightarrow> 'p"
  forward :: "bool \<Rightarrow> bool \<Rightarrow> 'p \<Rightarrow> 't \<Rightarrow> 't"
  named_parameters :: "'p \<Rightarrow> (string \<times> bool) list"
  state_dict :: "'p \<Rightarrow> (string \<times> 't) list"
  load_state_dict :: "'p \<Rightarrow> (string \<times> 't) list \<Rightarrow> bool \<Rightarrow> string + 'p"
  to :: "device \<Rightarrow> 't \<Rightarrow> 't"
  detach :: "'t \<Rightarrow> 't"
  set_requires_grad :: "'t \<Rightarrow> 't"
  radd :: "int \<Rightarrow> 't \<Rightarrow> 't"
  add :: "'t \<Rightarrow> 't \<Rightarrow> 't"
  mul :: "'t \<Rightarrow> 't \<Rightarrow> 't"
  rsub :: "int \<Rightarrow> 't \<Rightarrow> 't"
  rmul :: "real \<Rightarrow> 't \<Rightarrow> 't"
  mean :: "'t \<Rightarrow> 't"
  new_tensor :: "nat list \<Rightarrow> 't"
  size0 :: "'t \<Rightarrow> nat"
  resize :: "'t \<Rightarrow> nat list \<Rightarrow> 't"
  uniform :: "'t \<Rightarrow> nat \<Rightarrow> 't \<times> nat"
  criterion :: "criterion \<Rightarrow> 't \<Rightarrow> 't \<Rightarrow> 't"
  gan_loss :: "gan_criterion \<Rightarrow> 't \<Rightarrow> bool \<Rightarrow> 't"
  gp_loss :: "gp_criterion \<Rightarrow> 't \<Rightarrow> 't \<Rightarrow> 't"
  zero_grad :: "'p \<Rightarrow> 'p"
  backward :: "'t \<Rightarrow> 'p module \<Rightarrow> 'p"
  adam_init :: 'o
  adam_step :: "'o optimizer \<Rightarrow> 'p module \<Rightarrow> 'p \<times> 'o"
  optimizer_load_state_dict :: "'o optimizer \<Rightarrow> 'o \<Rightarrow> string + 'o optimizer"
  multistep_init :: 'o
  scheduler_load_state_dict :: "'o scheduler \<Rightarrow> 'o \<Rightarrow> 'o scheduler"

subsection \<open>Model objects\<close>

text \<open>
  \<open>BaseModel\<close> holds the attributes that \<open>BaseModel.__init__\<close> assigns; \<open>SRGANModel\<close>
  extends it, as the subclass does. An attribute that is assigned only on some paths is
  an \<open>option\<close>: \<open>None\<close> is the attribute not being there, and reading it raises
  \<open>AttributeError\<close>. The attributes that \<open>SRGANModel.__init__\<close> assigns inside its second
  \<open>if self.is_train:\<close> block (lines 109 to 189) are grouped in \<open>train_attrs\<close>, present
  as a whole or not at all. \<open>optimizer_G\<close> and \<open>optimizer_D\<close> are references to the
  objects held in \<open>self.optimizers\<close>, kept as their positions in that list.
  \<open>log_dict\<close> is an \<open>OrderedDict\<close>: an association list in insertion order.
\<close>

record 'o BaseModel =
  opt :: opt
  device :: device
  is_train :: bool
  schedulers :: "'o scheduler list"
  optimizers :: "'o optimizer list"

record ('t, 'p) train_attrs =
  cri_pix :: "criterion option"
  l_pix_w :: "real option"
  cri_fea :: "criterion option"
  l_fea_w :: "real option"
  netF :: "'p network option"
  cri_gan :: gan_criterion
  l_gan_w :: real
  D_update_ratio :: int
  D_init_iters :: int
  random_pt :: "'t option"
  cri_gp :: "gp_criterion option"
  l_gp_w :: "real option"
  optimizer_G :: nat
  optimizer_D :: nat
  log_dict :: "(string \<times> 't logval) list"

record ('t, 'p, 'o) SRGANModel = "'o BaseModel" +
  netG :: "'p network"
  netD :: "'p network option"
  tr :: "('t, 'p) train_attrs option"
  var_L :: "'t option"
  var_H :: "'t option"
  var_ref :: "'t option"
  fake_H :: "'t option"

text \<open>Checkpoint files: a path holds a serialized parameter mapping.\<close>

type_synonym 't files = "string \<rightharpoonup> (string \<times> 't) list"

subsection \<open>Python helpers\<close>

text \<open>\<open>d[k] = v\<close> on an ordered dictionary: a present key keeps its place.\<close>

fun setitem :: "('k \<times> 'v) list \<Rightarrow> 'k \<Rightarrow> 'v \<Rightarrow> ('k \<times> 'v) list" where
  "setitem [] k v = [(k, v)]"
| "setitem ((k', v') # d) k v = (if k' = k then (k, v) # d else (k', v') # setitem d k v)"

text \<open>\<open>str\<close> of an integer, for \<open>"{}_{}.pth".format(iter_step, network_label)\<close>.\<close>

fun str_nat :: "nat \<Rightarrow> string" where
  "str_nat n =
     (if n < 10 then [''0123456789'' ! n]
      else str_nat (n div 10) @ [''0123456789'' ! (n mod 10)])"

declare str_nat.simps [simp del]

definition str_int :: "int \<Rightarrow> string" where
  "str_int i = (if i < 0 then CHR ''-'' # str_nat (nat (- i)) else str_nat (nat i))"

text \<open>\<open>os.path.join(a, b)\<close> on a POSIX system.\<close>

definition path_join :: "string \<Rightarrow> string \<Rightarrow> string" where
  "path_join a b =
     (if b \<noteq> [] \<and> hd b = CHR ''/'' then b
      else if a = [] \<or> last a = CHR ''/'' then a @ b
      else a @ ''/'' @ b)"

subsection \<open>\<open>BaseModel\<close>\<close>

definition BaseModel_init :: "opt \<Rightarrow> 'o BaseModel" where
  "BaseModel_init cfg =
     \<lparr>opt = cfg,
      device = (if gpu_ids cfg \<noteq> None then CUDA else CPU),
      is_train = is_train_opt cfg,
      schedulers = [],
      optimizers = []\<rparr>"

text \<open>
  \<open>save_network\<close> (lines 57 to 65). \<open>state_dict()\<close> returns a fresh ordered dictionary
  whose values are the module's tensors; the loop rebinds each of its keys to the tensor
  moved to the CPU, and \<open>torch.save\<close> writes it. Nothing is assigned on \<open>self\<close> or
  on the network, so the function returns only the files. \<open>iter_step\<close> is the iteration
  number. The name \<open>os\<close> is taken to be bound by \<open>from networks import *\<close>, as the name
  \<open>networks\<close> must be for the constructor to run.
\<close>

definition cpu_items :: "('t, 'p, 'o) torch \<Rightarrow> (string \<times> 't) list \<Rightarrow> (string \<times> 't) list" where
  "cpu_items fw sd = foldl (\<lambda>d (key, param). setitem d key (to fw CPU param)) sd sd"

definition save_network ::
  "('t, 'p, 'o) torch \<Rightarrow> ('o, 'z) BaseModel_scheme \<Rightarrow> 't files \<Rightarrow> 'p network \<Rightarrow> string \<Rightarrow> int
     \<Rightarrow> 't files" where
  "save_network fw self fs network network_label iter_step =
     (let save_filename = str_int iter_step @ ''_'' @ network_label @ ''.pth'';
          save_path = path_join (models (path (opt self))) save_filename;
          network' = (case network of DataParallel m \<Rightarrow> m | Plain m \<Rightarrow> m);
          sd = cpu_items fw (state_dict fw (params network'))
      in fs(save_path \<mapsto> sd))"

text \<open>
  \<open>load_network\<close> (lines 67 to 70): \<open>torch.load\<close> fails on a missing file, and
  \<open>load_state_dict\<close> may refuse the mapping; otherwise the unwrapped module gets the
  loaded content.
\<close>

definition load_network ::
  "('t, 'p, 'o) torch \<Rightarrow> 't files \<Rightarrow> string \<Rightarrow> 'p network \<Rightarrow> bool \<Rightarrow> error + 'p network" where
  "load_network fw fs load_path network strict =
     (case fs load_path of
        None \<Rightarrow> Inl (FileNotFoundError load_path)
      | Some sd \<Rightarrow>
          (case load_state_dict fw (params (module_of network)) sd strict of
             Inl msg \<Rightarrow> Inl (RuntimeError msg)
           | Inr p \<Rightarrow> Inr (map_module (\<lambda>m. m\<lparr>params := p\<rparr>) network)))"

text \<open>
  \<open>resume_training\<close> (lines 82 to 94). The two loops walk \<open>enumerate(...)\<close> and load
  the \<open>i\<close>-th saved state into the \<open>i\<close>-th object; an optimizer may refuse its state
  (\<open>ValueError\<close>), a scheduler only updates its dictionary.
\<close>

record 'o resume_state =
  rs_epoch :: int
  rs_iter :: int
  rs_schedulers :: "'o list"
  rs_optimizers :: "'o list"

fun load_optimizers ::
  "('t, 'p, 'o) torch \<Rightarrow> 'o optimizer list \<Rightarrow> (nat \<times> 'o) list \<Rightarrow> error + 'o optimizer list" where
  "load_optimizers fw os [] = Inr os"
| "load_optimizers fw os ((i, o') # rest) =
     (if i < length os then
        (case optimizer_load_state_dict fw (os ! i) o' of
           Inl msg \<Rightarrow> Inl (ValueError msg)
         | Inr x \<Rightarrow> load_optimizers fw (os[i := x]) rest)
      else Inl IndexError)"

fun load_schedulers ::
  "('t, 'p, 'o) torch \<Rightarrow> 'o scheduler list \<Rightarrow> (nat \<times> 'o) list \<Rightarrow> error + 'o scheduler list" where
  "load_schedulers fw ss [] = Inr ss"
| "load_schedulers fw ss ((i, s') # rest) =
     (if i < length ss then
        load_schedulers fw (ss[i := scheduler_load_state_dict fw (ss ! i) s']) rest
      else Inl IndexError)"

definition resume_training ::
  "('t, 'p, 'o) torch \<Rightarrow> ('o, 'z) BaseModel_scheme \<Rightarrow> 'o resume_state
     \<Rightarrow> error + ('o, 'z) BaseModel_scheme" where
  "resume_training fw self resume_state =
     (let resume_optimizers = rs_optimizers resume_state;
          resume_schedulers = rs_schedulers resume_state
      in if length resume_optimizers \<noteq> length (optimizers self)
         then Inl (AssertionError ''Wrong lengths of optimizers'')
         else if length resume_schedulers \<noteq> length (schedulers self)
         then Inl (AssertionError ''Wrong lengths of schedulers'')
         else
           (case load_optimizers fw (optimizers self) (enumerate 0 resume_optimizers) of
              Inl e \<Rightarrow> Inl e
            | Inr os \<Rightarrow>
                (case load_schedulers fw (schedulers self) (enumerate 0 resume_schedulers) of
                   Inl e \<Rightarrow> Inl e
                 | Inr ss \<Rightarrow> Inr (self\<lparr>optimizers := os, schedulers := ss\<rparr>))))"

subsection \<open>\<open>SRGANModel\<close>: construction\<close>

text \<open>Calls on a network object: \<open>.to(device)\<close>, \<open>.train()\<close>, \<open>.eval()\<close>, \<open>net(x)\<close>.\<close>

definition net_to :: "('t, 'p, 'o) torch \<Rightarrow> device \<Rightarrow> 'p network \<Rightarrow> 'p network" where
  "net_to fw d n = map_module (\<lambda>m. m\<lparr>params := module_to fw d (params m)\<rparr>) n"

definition net_train :: "'p network \<Rightarrow> 'p network" where
  "net_train n = map_module (\<lambda>m. m\<lparr>training := True\<rparr>) n"

definition net_eval :: "'p network \<Rightarrow> 'p network" where
  "net_eval n = map_module (\<lambda>m. m\<lparr>training := False\<rparr>) n"

definition call :: "('t, 'p, 'o) torch \<Rightarrow> bool \<Rightarrow> 'p network \<Rightarrow> 't \<Rightarrow> 't" where
  "call fw grad_enabled n x =
     forward fw grad_enabled (training (module_of n)) (params (module_of n)) x"

text \<open>
  \<open>load\<close> (lines 321 to 329): pretrained weights for the generator when a path is
  configured, and for the discriminator when training and a path is configured.
\<close>

definition load ::
  "('t, 'p, 'o) torch \<Rightarrow> 't files \<Rightarrow> ('t, 'p, 'o) SRGANModel \<Rightarrow> error + ('t, 'p, 'o) SRGANModel" where
  "load fw fs self =
     (case (case pretrain_model_G (path (opt self)) of
              None \<Rightarrow> Inr self
            | Some load_path_G \<Rightarrow>
                (case load_network fw fs load_path_G (netG self) True of
                   Inl e \<Rightarrow> Inl e
                 | Inr n \<Rightarrow> Inr (self\<lparr>netG := n\<rparr>))) of
        Inl e \<Rightarrow> Inl e
      | Inr self1 \<Rightarrow>
          (case pretrain_model_D (path (opt self1)) of
             None \<Rightarrow> Inr self1
           | Some load_path_D \<Rightarrow>
               if is_train_opt (opt self1) then
                 (case netD self1 of
                    None \<Rightarrow> Inl (AttributeError ''netD'')
                  | Some d \<Rightarrow>
                      (case load_network fw fs load_path_D d True of
                         Inl e \<Rightarrow> Inl e
                       | Inr n \<Rightarrow> Inr (self1\<lparr>netD := Some n\<rparr>)))
               else Inr self1))"

text \<open>
  Lines 98 to 106: the base attributes, the generator, and in training mode the
  discriminator, both switched to training mode.
\<close>

definition init_networks :: "('t, 'p, 'o) torch \<Rightarrow> opt \<Rightarrow> ('t, 'p, 'o) SRGANModel" where
  "init_networks fw cfg =
     (let base = BaseModel_init cfg;
          self = BaseModel.extend base
            (SRGANModel.fields (net_to fw (device base) (define_G fw cfg)) None None None None None None)
      in if is_train self
         then self\<lparr>netD := Some (net_train (net_to fw (device self) (define_D fw cfg))),
                   netG := net_train (netG self)\<rparr>
         else self)"

text \<open>
  Lines 109 to 189, run in training mode only, in three blocks: the pixel loss (lines 110
  to 123), the feature loss (lines 125 to 138), and the rest (the feature network, the
  adversarial loss, the update schedule, the two Adam optimizers, the schedulers and the
  empty log). Each loss block yields the criterion and its weight, or neither when the
  configured weight is not positive. Messages sent to the logger are not part of the
  model.
\<close>

definition init_cri_pix :: "train_opt \<Rightarrow> error + (criterion option \<times> real option)" where
  "init_cri_pix train_opt =
     (if pixel_weight train_opt > 0 then
        (let l_pix_type = pixel_criterion train_opt in
         if l_pix_type = ''l1'' then Inr (Some L1Loss, Some (pixel_weight train_opt))
         else if l_pix_type = ''l2'' then Inr (Some MSELoss, Some (pixel_weight train_opt))
         else Inl (NotImplementedError (''Loss type ['' @ l_pix_type @ ''] not recognized.'')))
      else Inr (None, None))"

definition init_cri_fea :: "train_opt \<Rightarrow> error + (criterion option \<times> real option)" where
  "init_cri_fea train_opt =
     (if feature_weight train_opt > 0 then
        (let l_fea_type = feature_criterion train_opt in
         if l_fea_type = ''l1'' then Inr (Some L1Loss, Some (feature_weight train_opt))
         else if l_fea_type = ''l2'' then Inr (Some MSELoss, Some (feature_weight train_opt))
         else Inl (NotImplementedError (''Loss type ['' @ l_fea_type @ ''] not recognized.'')))
      else Inr (None, None))"

definition init_optim ::
  "('t, 'p, 'o) torch \<Rightarrow> ('t, 'p, 'o) SRGANModel \<Rightarrow> criterion option \<times> real option
     \<Rightarrow> criterion option \<times> real option \<Rightarrow> 'p network \<Rightarrow> error + ('t, 'p, 'o) SRGANModel" where
  "init_optim fw self pix fea netD' =
     (let cfg = opt self; train_opt = train cfg;
          netF' = (if fst fea \<noteq> None
                   then Some (net_to fw (device self) (define_F fw cfg False)) else None);
          wgan = (gan_type train_opt = ''wgan-gp'');
          wd_G = (case weight_decay_G train_opt of
                    None \<Rightarrow> 0 | Some w \<Rightarrow> if w \<noteq> 0 then w else 0);
          optim_params = map fst
            (filter snd (named_parameters fw (params (module_of (netG self)))));
          optimizer_G' =
            \<lparr>opt_params = optim_params, lr = lr_G train_opt, weight_decay = wd_G,
             betas = (beta1_G train_opt, 0.999), opt_state = adam_init fw\<rparr>;
          optimizers1 = optimizers self @ [optimizer_G'];
          wd_D = (case weight_decay_D train_opt of
                    None \<Rightarrow> 0 | Some w \<Rightarrow> if w \<noteq> 0 then w else 0);
          optimizer_D' =
            \<lparr>opt_params = map fst (named_parameters fw (params (module_of netD'))),
             lr = lr_D train_opt, weight_decay = wd_D,
             betas = (beta1_D train_opt, 0.999), opt_state = adam_init fw\<rparr>;
          optimizers2 = optimizers1 @ [optimizer_D']
      in if lr_scheme train_opt = ''MultiStepLR'' then
           Inr (self
             \<lparr>optimizers := optimizers2,
              schedulers := schedulers self @
                map (\<lambda>i. \<lparr>sched_optimizer = i, milestones = lr_steps train_opt,
                          gamma = lr_gamma train_opt, sched_state = multistep_init fw\<rparr>)
                  [0..<length optimizers2],
              tr := Some
                \<lparr>cri_pix = fst pix, l_pix_w = snd pix,
                 cri_fea = fst fea, l_fea_w = snd fea,
                 netF = netF',
                 cri_gan = GANLoss (gan_type train_opt) 1.0 0.0,
                 l_gan_w = gan_weight train_opt,
                 D_update_ratio = (case D_update_ratio_opt train_opt of
                    None \<Rightarrow> 1 | Some r \<Rightarrow> if r \<noteq> 0 then r else 1),
                 D_init_iters = (case D_init_iters_opt train_opt of
                    None \<Rightarrow> 0 | Some n \<Rightarrow> if n \<noteq> 0 then n else 0),
                 random_pt = (if wgan then Some (to fw (device self) (new_tensor fw [1, 1, 1, 1]))
                              else None),
                 cri_gp = (if wgan then Some (GradientPenaltyLoss (device self)) else None),
                 l_gp_w = (if wgan then Some (gp_weigth train_opt) else None),
                 optimizer_G = length (optimizers self),
                 optimizer_D = length optimizers1,
                 log_dict = []\<rparr>\<rparr>)
         else Inl (NotImplementedError ''MultiStepLR learning rate scheme is enough.''))"

definition init_train ::
  "('t, 'p, 'o) torch \<Rightarrow> ('t, 'p, 'o) SRGANModel \<Rightarrow> error + ('t, 'p, 'o) SRGANModel" where
  "init_train fw self =
     (case init_cri_pix (train (opt self)) of
        Inl e \<Rightarrow> Inl e
      | Inr pix \<Rightarrow>
          (case init_cri_fea (train (opt self)) of
             Inl e \<Rightarrow> Inl e
           | Inr fea \<Rightarrow>
               (case netD self of
                  None \<Rightarrow> Inl (AttributeError ''netD'')
                | Some netD' \<Rightarrow> init_optim fw self pix fea netD')))"

text \<open>
  \<open>SRGANModel.__init__\<close>: networks, \<open>self.load()\<close>, then the training attributes when
  \<open>self.is_train\<close>. The closing \<open>self.print_network()\<close> only logs.
\<close>

definition SRGANModel_init ::
  "('t, 'p, 'o) torch \<Rightarrow> 't files \<Rightarrow> opt \<Rightarrow> error + ('t, 'p, 'o) SRGANModel" where
  "SRGANModel_init fw fs cfg =
     (case load fw fs (init_networks fw cfg) of
        Inl e \<Rightarrow> Inl e
      | Inr self \<Rightarrow> if is_train self then init_train fw self else Inr self)"

subsection \<open>\<open>SRGANModel\<close>: data, inference, checkpoints\<close>

text \<open>\<open>feed_data\<close> (lines 192 to 198); the batch is a dictionary from names to tensors.\<close>

definition feed_data ::
  "('t, 'p, 'o) torch \<Rightarrow> ('t, 'p, 'o) SRGANModel \<Rightarrow> (string \<rightharpoonup> 't) \<Rightarrow> bool
     \<Rightarrow> error + ('t, 'p, 'o) SRGANModel" where
  "feed_data fw self data need_HR =
     (case data ''LR'' of
        None \<Rightarrow> Inl (KeyError ''LR'')
      | Some x \<Rightarrow>
          (let self1 = self\<lparr>var_L := Some (to fw (device self) x)\<rparr> in
           if need_HR then
             (case data ''HR'' of
                None \<Rightarrow> Inl (KeyError ''HR'')
              | Some h \<Rightarrow>
                  (let self2 = self1\<lparr>var_H := Some (to fw (device self1) h)\<rparr>;
                       input_ref = (case data ''ref'' of Some r \<Rightarrow> r | None \<Rightarrow> h)
                   in Inr (self2\<lparr>var_ref := Some (to fw (device self2) input_ref)\<rparr>)))
           else Inr self1))"

text \<open>\<open>test\<close> (lines 261 to 265); the forward pass runs under \<open>torch.no_grad()\<close>.\<close>

definition test ::
  "('t, 'p, 'o) torch \<Rightarrow> ('t, 'p, 'o) SRGANModel \<Rightarrow> error + ('t, 'p, 'o) SRGANModel" where
  "test fw self =
     (let self1 = self\<lparr>netG := net_eval (netG self)\<rparr> in
      case var_L self1 of
        None \<Rightarrow> Inl (AttributeError ''var_L'')
      | Some x \<Rightarrow>
          (let self2 = self1\<lparr>fake_H := Some (call fw False (netG self1) x)\<rparr>
           in Inr (self2\<lparr>netG := net_train (netG self2)\<rparr>)))"

text \<open>
  \<open>save\<close> (lines 331 to 333). The generator's file is written before \<open>self.netD\<close>
  is read, so the result carries the files together with the exception, if any.
\<close>

definition save ::
  "('t, 'p, 'o) torch \<Rightarrow> ('t, 'p, 'o) SRGANModel \<Rightarrow> 't files \<Rightarrow> int \<Rightarrow> 't files \<times> error option" where
  "save fw self fs iter_step =
     (let fs1 = save_network fw self fs (netG self) ''G'' iter_step in
      case netD self of
        None \<Rightarrow> (fs1, Some (AttributeError ''netD''))
      | Some d \<Rightarrow> (save_network fw self fs1 d ''D'' iter_step, None))"

subsection \<open>\<open>SRGANModel\<close>: one training step\<close>

text \<open>
  The framework calls of \<open>optimize_parameters\<close>. \<open>optimizer.zero_grad()\<close> clears the
  gradients of the network the optimizer was built on; \<open>loss.backward()\<close> accumulates
  into the gradients of each network (which of them the loss reaches is the framework's
  business: \<open>backward fw\<close> decides per module); \<open>optimizer.step()\<close> rewrites the content
  of its network and its own running state.
\<close>

definition zero_grad_net :: "('t, 'p, 'o) torch \<Rightarrow> 'p network \<Rightarrow> 'p network" where
  "zero_grad_net fw n = map_module (\<lambda>m. m\<lparr>grads := zero_grad fw (grads m)\<rparr>) n"

definition backward_net :: "('t, 'p, 'o) torch \<Rightarrow> 't \<Rightarrow> 'p network \<Rightarrow> 'p network" where
  "backward_net fw l n = map_module (\<lambda>m. m\<lparr>grads := backward fw l m\<rparr>) n"

definition backward_all ::
  "('t, 'p, 'o) torch \<Rightarrow> 't \<Rightarrow> ('t, 'p, 'o) SRGANModel \<Rightarrow> ('t, 'p) train_attrs
     \<Rightarrow> ('t, 'p, 'o) SRGANModel \<times> ('t, 'p) train_attrs" where
  "backward_all fw l self t =
     (self\<lparr>netG := backward_net fw l (netG self),
            netD := map_option (backward_net fw l) (netD self)\<rparr>,
      t\<lparr>netF := map_option (backward_net fw l) (netF t)\<rparr>)"

definition optimizer_step ::
  "('t, 'p, 'o) torch \<Rightarrow> 'o optimizer list \<Rightarrow> nat \<Rightarrow> 'p network
     \<Rightarrow> 'o optimizer list \<times> 'p network" where
  "optimizer_step fw os i n =
     (let (p, st) = adam_step fw (os ! i) (module_of n)
      in (os[i := (os ! i)\<lparr>opt_state := st\<rparr>], map_module (\<lambda>m. m\<lparr>params := p\<rparr>) n))"

text \<open>
  \<open>l_g_total = 0\<close> starts as a Python number; \<open>l_g_total += x\<close> then adds a tensor to a
  number the first time and to a tensor afterwards.
\<close>

datatype 't total = Number int | Loss 't

fun iadd :: "('t, 'p, 'o) torch \<Rightarrow> 't total \<Rightarrow> 't \<Rightarrow> 't" where
  "iadd fw (Number n) x = radd fw n x"
| "iadd fw (Loss a) x = add fw a x"

text \<open>
  Lines 206 to 208 and 209 to 213: the weighted pixel loss and the weighted feature loss
  on the generator's output \<open>fake\<close>, each computed only when its criterion is
  configured. The features of the high-resolution image are detached.
\<close>

definition pixel_term ::
  "('t, 'p, 'o) torch \<Rightarrow> ('t, 'p, 'o) SRGANModel \<Rightarrow> ('t, 'p) train_attrs \<Rightarrow> 't
     \<Rightarrow> error + 't option" where
  "pixel_term fw self t fake =
     (case cri_pix t of
        None \<Rightarrow> Inr None
      | Some c \<Rightarrow>
          (case l_pix_w t of
             None \<Rightarrow> Inl (AttributeError ''l_pix_w'')
           | Some w \<Rightarrow>
               (case var_H self of
                  None \<Rightarrow> Inl (AttributeError ''var_H'')
                | Some h \<Rightarrow> Inr (Some (rmul fw w (criterion fw c fake h))))))"

definition feature_term ::
  "('t, 'p, 'o) torch \<Rightarrow> ('t, 'p, 'o) SRGANModel \<Rightarrow> ('t, 'p) train_attrs \<Rightarrow> 't
     \<Rightarrow> error + 't option" where
  "feature_term fw self t fake =
     (case cri_fea t of
        None \<Rightarrow> Inr None
      | Some c \<Rightarrow>
          (case netF t of
             None \<Rightarrow> Inl (AttributeError ''netF'')
           | Some f \<Rightarrow>
               (case var_H self of
                  None \<Rightarrow> Inl (AttributeError ''var_H'')
                | Some h \<Rightarrow>
                    (let real_fea = detach fw (call fw True f h);
                         fake_fea = call fw True f fake
                     in case l_fea_w t of
                          None \<Rightarrow> Inl (AttributeError ''l_fea_w'')
                        | Some w \<Rightarrow>
                            Inr (Some (rmul fw w (criterion fw c fake_fea real_fea)))))))"

text \<open>
  Lines 204 to 216: the generator's losses, returned as
  \<open>(l_g_pix, l_g_fea, l_g_gan, l_g_total)\<close>; the first two are there only when their
  criterion is configured.
\<close>

definition generator_loss ::
  "('t, 'p, 'o) torch \<Rightarrow> ('t, 'p, 'o) SRGANModel \<Rightarrow> ('t, 'p) train_attrs \<Rightarrow> 't
     \<Rightarrow> error + ('t option \<times> 't option \<times> 't \<times> 't)" where
  "generator_loss fw self t fake =
     (case pixel_term fw self t fake of
        Inl e \<Rightarrow> Inl e
      | Inr l_g_pix \<Rightarrow>
          (case feature_term fw self t fake of
             Inl e \<Rightarrow> Inl e
           | Inr l_g_fea \<Rightarrow>
               (case netD self of
                  None \<Rightarrow> Inl (AttributeError ''netD'')
                | Some d \<Rightarrow>
                    (let pred_g_fake = call fw True d fake;
                         l_g_gan = rmul fw (l_gan_w t) (gan_loss fw (cri_gan t) pred_g_fake True);
                         total1 = (case l_g_pix of
                                     None \<Rightarrow> Number 0
                                   | Some x \<Rightarrow> Loss (iadd fw (Number 0) x));
                         total2 = (case l_g_fea of
                                     None \<Rightarrow> total1
                                   | Some x \<Rightarrow> Loss (iadd fw total1 x))
                     in Inr (l_g_pix, l_g_fea, l_g_gan, iadd fw total2 l_g_gan)))))"

text \<open>Lines 206 to 219: the losses, \<open>l_g_total.backward()\<close>, \<open>self.optimizer_G.step()\<close>.\<close>

definition generator_step ::
  "('t, 'p, 'o) torch \<Rightarrow> ('t, 'p, 'o) SRGANModel \<Rightarrow> ('t, 'p) train_attrs \<Rightarrow> 't
     \<Rightarrow> error + (('t, 'p, 'o) SRGANModel \<times> ('t, 'p) train_attrs \<times> ('t option \<times> 't option \<times> 't))" where
  "generator_step fw self t fake =
     (case generator_loss fw self t fake of
        Inl e \<Rightarrow> Inl e
      | Inr (l_g_pix, l_g_fea, l_g_gan, l_g_total) \<Rightarrow>
          (let (self1, t1) = backward_all fw l_g_total self t;
               (os, g) = optimizer_step fw (optimizers self1) (optimizer_G t1) (netG self1)
           in Inr (self1\<lparr>optimizers := os, netG := g\<rparr>, t1, (l_g_pix, l_g_fea, l_g_gan))))"

text \<open>
  Lines 223 to 242, given the discriminator after \<open>zero_grad\<close>: the result is
  \<open>(random_pt, rng, l_d_real, l_d_fake, pred_d_real, pred_d_fake, l_d_gp, l_d_total)\<close>.
  \<open>rng\<close> is the state of the framework's random generator, which \<open>uniform_()\<close> reads and
  advances; \<open>l_d_gp\<close> is there only for \<open>wgan-gp\<close>.
\<close>

definition discriminator_loss ::
  "('t, 'p, 'o) torch \<Rightarrow> ('t, 'p, 'o) SRGANModel \<Rightarrow> ('t, 'p) train_attrs \<Rightarrow> 'p network \<Rightarrow> nat \<Rightarrow> 't
     \<Rightarrow> error + ('t option \<times> nat \<times> 't \<times> 't \<times> 't \<times> 't \<times> 't option \<times> 't)" where
  "discriminator_loss fw self t d rng fake =
     (case var_ref self of
        None \<Rightarrow> Inl (AttributeError ''var_ref'')
      | Some ref \<Rightarrow>
          (let pred_d_real = call fw True d ref;
               l_d_real = gan_loss fw (cri_gan t) pred_d_real True;
               pred_d_fake = call fw True d (detach fw fake);
               l_d_fake = gan_loss fw (cri_gan t) pred_d_fake False;
               l_d_total = add fw l_d_real l_d_fake
           in if gan_type (train (opt self)) = ''wgan-gp'' then
                (let batch_size = size0 fw ref in
                 case random_pt t of
                   None \<Rightarrow> Inl (AttributeError ''random_pt'')
                 | Some r \<Rightarrow>
                     (let r1 = (if size0 fw r \<noteq> batch_size
                                then resize fw r [batch_size, 1, 1, 1] else r);
                          (r2, rng') = uniform fw r1 rng;
                          interp = set_requires_grad fw
                            (add fw (mul fw r2 (detach fw fake)) (mul fw (rsub fw 1 r2) ref));
                          interp_crit = call fw True d interp
                      in case l_gp_w t of
                           None \<Rightarrow> Inl (AttributeError ''l_gp_w'')
                         | Some w \<Rightarrow>
                             (case cri_gp t of
                                None \<Rightarrow> Inl (AttributeError ''cri_gp'')
                              | Some c \<Rightarrow>
                                  (let l_d_gp = rmul fw w (gp_loss fw c interp interp_crit)
                                   in Inr (Some r2, rng', l_d_real, l_d_fake, pred_d_real,
                                           pred_d_fake, Some l_d_gp, add fw l_d_total l_d_gp)))))
              else Inr (random_pt t, rng, l_d_real, l_d_fake, pred_d_real, pred_d_fake,
                        None, l_d_total)))"

text \<open>
  Lines 221 to 245: \<open>self.optimizer_D.zero_grad()\<close>, the losses, \<open>l_d_total.backward()\<close>,
  \<open>self.optimizer_D.step()\<close>.
\<close>

definition discriminator_step ::
  "('t, 'p, 'o) torch \<Rightarrow> ('t, 'p, 'o) SRGANModel \<Rightarrow> ('t, 'p) train_attrs \<Rightarrow> nat \<Rightarrow> 't
     \<Rightarrow> error + (('t, 'p, 'o) SRGANModel \<times> ('t, 'p) train_attrs \<times> nat
                 \<times> ('t \<times> 't \<times> 't \<times> 't \<times> 't option))" where
  "discriminator_step fw self t rng fake =
     (case netD self of
        None \<Rightarrow> Inl (AttributeError ''netD'')
      | Some d0 \<Rightarrow>
          (let d = zero_grad_net fw d0;
               self1 = self\<lparr>netD := Some d\<rparr>
           in case discriminator_loss fw self1 t d rng fake of
                Inl e \<Rightarrow> Inl e
              | Inr (random_pt', rng', l_d_real, l_d_fake, pred_d_real, pred_d_fake,
                     l_d_gp, l_d_total) \<Rightarrow>
                  (let (self2, t2) = backward_all fw l_d_total self1 (t\<lparr>random_pt := random_pt'\<rparr>);
                       (os, d') = optimizer_step fw (optimizers self2) (optimizer_D t2)
                                    (backward_net fw l_d_total d)
                   in Inr (self2\<lparr>optimizers := os, netD := Some d'\<rparr>, t2, rng',
                           (l_d_real, l_d_fake, pred_d_real, pred_d_fake, l_d_gp)))))"

text \<open>
  Lines 247 to 259: the assignments \<open>self.log_dict[name] = value\<close> of one call, in
  program order. \<open>g\<close> holds the generator's losses when the generator branch ran.
\<close>

definition log_writes ::
  "('t, 'p, 'o) torch \<Rightarrow> ('t option \<times> 't option \<times> 't) option
     \<Rightarrow> ('t \<times> 't \<times> 't \<times> 't \<times> 't option) \<Rightarrow> (string \<times> 't logval) list" where
  "log_writes fw g d =
     (case d of (l_d_real, l_d_fake, pred_d_real, pred_d_fake, l_d_gp) \<Rightarrow>
        (case g of
           None \<Rightarrow> []
         | Some (l_g_pix, l_g_fea, l_g_gan) \<Rightarrow>
             (case l_g_pix of None \<Rightarrow> [] | Some x \<Rightarrow> [(''l_g_pix'', Item x)]) @
             (case l_g_fea of None \<Rightarrow> [] | Some x \<Rightarrow> [(''l_g_fea'', Item x)]) @
             [(''l_g_gan'', Item l_g_gan)]) @
        [(''l_d_real'', Item l_d_real), (''l_d_fake'', Item l_d_fake)] @
        (case l_d_gp of None \<Rightarrow> [] | Some x \<Rightarrow> [(''l_d_gp'', Item x)]) @
        [(''D_real'', Tensor (mean fw (detach fw pred_d_real))),
         (''D_fake'', Tensor (mean fw (detach fw pred_d_fake)))])"

definition setitems :: "('k \<times> 'v) list \<Rightarrow> ('k \<times> 'v) list \<Rightarrow> ('k \<times> 'v) list" where
  "setitems d kvs = foldl (\<lambda>d (k, v). setitem d k v) d kvs"

text \<open>The test of lines 205 and 247.\<close>

definition update_due :: "('t, 'p) train_attrs \<Rightarrow> int \<Rightarrow> bool" where
  "update_due t step \<longleftrightarrow> step mod D_update_ratio t = 0 \<and> step > D_init_iters t"

text \<open>
  Lines 205 to 219: the generator branch, taken when the test holds. Its result carries
  the generator's losses when the branch ran.
\<close>

definition generator_phase ::
  "('t, 'p, 'o) torch \<Rightarrow> ('t, 'p, 'o) SRGANModel \<Rightarrow> ('t, 'p) train_attrs \<Rightarrow> int \<Rightarrow> 't
     \<Rightarrow> error + (('t, 'p, 'o) SRGANModel \<times> ('t, 'p) train_attrs
                 \<times> ('t option \<times> 't option \<times> 't) option)" where
  "generator_phase fw self t step fake =
     (if update_due t step then
        (case generator_step fw self t fake of
           Inl e \<Rightarrow> Inl e
         | Inr (self', t', g) \<Rightarrow> Inr (self', t', Some g))
      else Inr (self, t, None))"

text \<open>
  Lines 201 to 245: the two updates. Python's \<open>%\<close> raises on a zero divisor and
  otherwise agrees with \<open>mod\<close> on \<open>int\<close> (the result has the divisor's sign).
\<close>

definition update_networks ::
  "('t, 'p, 'o) torch \<Rightarrow> ('t, 'p, 'o) SRGANModel \<Rightarrow> ('t, 'p) train_attrs \<Rightarrow> nat \<Rightarrow> int
     \<Rightarrow> error + (('t, 'p, 'o) SRGANModel \<times> ('t, 'p) train_attrs \<times> nat
                 \<times> ('t option \<times> 't option \<times> 't) option
                 \<times> ('t \<times> 't \<times> 't \<times> 't \<times> 't option))" where
  "update_networks fw self t rng step =
     (let self1 = self\<lparr>netG := zero_grad_net fw (netG self)\<rparr> in
      case var_L self1 of
        None \<Rightarrow> Inl (AttributeError ''var_L'')
      | Some x \<Rightarrow>
          (let fake = call fw True (netG self1) x;
               self2 = self1\<lparr>fake_H := Some fake\<rparr>
           in if D_update_ratio t = 0 then Inl ZeroDivisionError
              else
                (case generator_phase fw self2 t step fake of
                   Inl e \<Rightarrow> Inl e
                 | Inr (self3, t3, g) \<Rightarrow>
                     (case discriminator_step fw self3 t3 rng fake of
                        Inl e \<Rightarrow> Inl e
                      | Inr (self4, t4, rng', d) \<Rightarrow> Inr (self4, t4, rng', g, d)))))"

text \<open>
  \<open>optimize_parameters(step)\<close> (lines 200 to 259): the updates, then the log. The
  first attribute read is \<open>self.optimizer_G\<close>. The state of the framework's random
  generator is not an attribute of the model: the call takes it and returns it.
\<close>

definition optimize_parameters ::
  "('t, 'p, 'o) torch \<Rightarrow> ('t, 'p, 'o) SRGANModel \<Rightarrow> nat \<Rightarrow> int
     \<Rightarrow> error + (('t, 'p, 'o) SRGANModel \<times> nat)" where
  "optimize_parameters fw self rng step =
     (case tr self of
        None \<Rightarrow> Inl (AttributeError ''optimizer_G'')
      | Some t \<Rightarrow>
          (case update_networks fw self t rng step of
             Inl e \<Rightarrow> Inl e
           | Inr (self4, t4, rng', g, d) \<Rightarrow>
               Inr (self4\<lparr>tr := Some
                       (t4\<lparr>log_dict := setitems (log_dict t4) (log_writes fw g d)\<rparr>)\<rparr>,
                    rng')))"

text \<open>The metrics that one call computes: the entries it writes to the log.\<close>

definition step_metrics ::
  "('t, 'p, 'o) torch \<Rightarrow> ('t, 'p, 'o) SRGANModel \<Rightarrow> nat \<Rightarrow> int
     \<Rightarrow> error + (string \<times> 't logval) list" where
  "step_metrics fw self rng step =
     (case tr self of
        None \<Rightarrow> Inl (AttributeError ''optimizer_G'')
      | Some t \<Rightarrow>
          (case update_networks fw self t rng step of
             Inl e \<Rightarrow> Inl e
           | Inr (self4, t4, rng', g, d) \<Rightarrow> Inr (log_writes fw g d)))"

text \<open>\<open>get_current_log\<close> (lines 267 to 268).\<close>

definition get_current_log ::
  "('t, 'p, 'o) SRGANModel \<Rightarrow> error + (string \<times> 't logval) list" where
  "get_current_log self =
     (case tr self of None \<Rightarrow> Inl (AttributeError ''log_dict'') | Some t \<Rightarrow> Inr (log_dict t))"

text \<open>
  A model that is ready for a training step: built in training mode (the discriminator
  and the training attributes are there, and the attributes assigned together with a
  criterion or for \<open>wgan-gp\<close> accompany it), with a batch fed by
  \<open>feed_data(data, need_HR=True)\<close>. The constructor never stores a zero update ratio,
  and it puts the generator's and the discriminator's optimizer at two places of
  \<open>self.optimizers\<close>.
\<close>

definition ready :: "('t, 'p, 'o) SRGANModel \<Rightarrow> bool" where
  "ready self \<longleftrightarrow>
     (case tr self of
        None \<Rightarrow> False
      | Some t \<Rightarrow>
          netD self \<noteq> None \<and> var_L self \<noteq> None \<and> var_H self \<noteq> None \<and> var_ref self \<noteq> None
          \<and> D_update_ratio t \<noteq> 0
          \<and> (cri_pix t \<noteq> None \<longrightarrow> l_pix_w t \<noteq> None)
          \<and> (cri_fea t \<noteq> None \<longrightarrow> l_fea_w t \<noteq> None \<and> netF t \<noteq> None)
          \<and> (gan_type (train (opt self)) = ''wgan-gp'' \<longrightarrow>
                random_pt t \<noteq> None \<and> cri_gp t \<noteq> None \<and> l_gp_w t \<noteq> None)
          \<and> optimizer_G t < length (optimizers self)
          \<and> optimizer_D t < length (optimizers self)
          \<and> optimizer_G t \<noteq> optimizer_D t)"

subsection \<open>A concrete framework\<close>

text \<open>
  To run the model on concrete inputs, a small framework: a tensor is an integer with the
  device it lives on, the content of a network is one integer, and the state dictionary
  of an optimizer or scheduler is a counter.
\<close>

definition toy :: "(int \<times> device, int, nat) torch" where
  "toy =
     \<lparr>define_G = (\<lambda>cfg. Plain \<lparr>params = 1, grads = 0, training = False\<rparr>),
      define_D = (\<lambda>cfg. DataParallel \<lparr>params = 2, grads = 0, training = False\<rparr>),
      define_F = (\<lambda>cfg use_bn. Plain \<lparr>params = 3, grads = 0, training = False\<rparr>),
      module_to = (\<lambda>d p. p),
      forward = (\<lambda>grad_enabled train p x. (p * fst x, snd x)),
      named_parameters = (\<lambda>p. [(''weight'', True), (''bias'', False)]),
      state_dict = (\<lambda>p. [(''weight'', (p, CUDA)), (''bias'', (0, CUDA))]),
      load_state_dict = (\<lambda>p sd strict.
         case map_of sd ''weight'' of
           None \<Rightarrow> if strict then Inl ''Missing key(s) in state_dict'' else Inr p
         | Some v \<Rightarrow> Inr (fst v)),
      to = (\<lambda>d x. (fst x, d)),
      detach = (\<lambda>x. x),
      set_requires_grad = (\<lambda>x. x),
      radd = (\<lambda>n x. (n + fst x, snd x)),
      add = (\<lambda>x y. (fst x + fst y, snd x)),
      mul = (\<lambda>x y. (fst x * fst y, snd x)),
      rsub = (\<lambda>n x. (n - fst x, snd x)),
      rmul = (\<lambda>w x. (\<lfloor>w\<rfloor> * fst x, snd x)),
      mean = (\<lambda>x. x),
      new_tensor = (\<lambda>shape. (0, CPU)),
      size0 = (\<lambda>x. 1),
      resize = (\<lambda>x shape. x),
      uniform = (\<lambda>x rng. ((int rng, snd x), Suc rng)),
      criterion = (\<lambda>c x y. case c of
                      L1Loss \<Rightarrow> (\<bar>fst x - fst y\<bar>, snd x)
                    | MSELoss \<Rightarrow> ((fst x - fst y) * (fst x - fst y), snd x)),
      gan_loss = (\<lambda>c pred target_is_real.
                    if target_is_real then (1 - fst pred, snd pred) else pred),
      gp_loss = (\<lambda>c x y. (fst x + fst y, snd x)),
      zero_grad = (\<lambda>g. 0),
      backward = (\<lambda>l m. grads m + fst l),
      adam_init = 0,
      adam_step = (\<lambda>opt m. (params m - grads m, Suc (opt_state opt))),
      optimizer_load_state_dict = (\<lambda>opt st. Inr (opt\<lparr>opt_state := st\<rparr>)),
      multistep_init = 0,
      scheduler_load_state_dict = (\<lambda>s st. s\<lparr>sched_state := st\<rparr>)\<rparr>"

text \<open>A training configuration, and a batch without a reference image.\<close>

definition cfg0 :: opt where
  "cfg0 =
     \<lparr>gpu_ids = None, is_train_opt = True,
      train = \<lparr>pixel_weight = 1, pixel_criterion = ''l1'',
               feature_weight = 1, feature_criterion = ''l2'',
               gan_type = ''vanilla'', gan_weight = 1,
               D_update_ratio_opt = Some 2, D_init_iters_opt = None,
               gp_weigth = 10,
               weight_decay_G = None, lr_G = 1, beta1_G = 1,
               weight_decay_D = None, lr_D = 1, beta1_D = 1,
               lr_scheme = ''MultiStepLR'', lr_steps = [50, 100], lr_gamma = 1\<rparr>,
      path = \<lparr>models = ''exp/models'', training_state = ''exp/state'',
              pretrain_model_G = None, pretrain_model_D = None\<rparr>\<rparr>"

definition batch0 :: "string \<rightharpoonup> int \<times> device" where
  "batch0 = [''LR'' \<mapsto> (1, CPU), ''HR'' \<mapsto> (4, CPU)]"

text \<open>The model that the constructor builds from \<open>cfg0\<close> on the concrete framework.\<close>

definition model0 :: "(int \<times> device, int, nat) SRGANModel" where
  "model0 =
     \<lparr>opt = cfg0, device = CPU, is_train = True,
      schedulers =
        [\<lparr>sched_optimizer = 0, milestones = [50, 100], gamma = 1, sched_state = 0\<rparr>,
         \<lparr>sched_optimizer = 1, milestones = [50, 100], gamma = 1, sched_state = 0\<rparr>],
      optimizers =
        [\<lparr>opt_params = [''weight''], lr = 1, weight_decay = 0, betas = (1, 0.999),
          opt_state = 0\<rparr>,
         \<lparr>opt_params = [''weight'', ''bias''], lr = 1, weight_decay = 0, betas = (1, 0.999),
          opt_state = 0\<rparr>],
      netG = Plain \<lparr>params = 1, grads = 0, training = True\<rparr>,
      netD = Some (DataParallel \<lparr>params = 2, grads = 0, training = True\<rparr>),
      tr = Some
        \<lparr>cri_pix = Some L1Loss, l_pix_w = Some 1,
         cri_fea = Some MSELoss, l_fea_w = Some 1,
         netF = Some (Plain \<lparr>params = 3, grads = 0, training = False\<rparr>),
         cri_gan = GANLoss ''vanilla'' 1 0, l_gan_w = 1,
         D_update_ratio = 2, D_init_iters = 0,
         random_pt = None, cri_gp = None, l_gp_w = None,
         optimizer_G = 0, optimizer_D = 1, log_dict = []\<rparr>,
      var_L = None, var_H = None, var_ref = None, fake_H = None\<rparr>"


text \<open>
  The same model with a batch fed, after the training step 2 (the generator is updated)
  and after the following step 3 (the generator is not updated).
\<close>

definition model1 :: "(int \<times> device, int, nat) SRGANModel" where
  "model1 = model0\<lparr>var_L := Some (1, CPU), var_H := Some (4, CPU), var_ref := Some (4, CPU)\<rparr>"

definition model2 :: "(int \<times> device, int, nat) SRGANModel" where
  "model2 =
     \<lparr>opt = cfg0, device = CPU, is_train = True,
      schedulers =
        [\<lparr>sched_optimizer = 0, milestones = [50, 100], gamma = 1, sched_state = 0\<rparr>,
         \<lparr>sched_optimizer = 1, milestones = [50, 100], gamma = 1, sched_state = 0\<rparr>],
      optimizers =
        [\<lparr>opt_params = [''weight''], lr = 1, weight_decay = 0, betas = (1, 0.999),
          opt_state = 1\<rparr>,
         \<lparr>opt_params = [''weight'', ''bias''], lr = 1, weight_decay = 0, betas = (1, 0.999),
          opt_state = 1\<rparr>],
      netG = Plain \<lparr>params = - 82, grads = 78, training = True\<rparr>,
      netD = Some (DataParallel \<lparr>params = 7, grads = - 5, training = True\<rparr>),
      tr = Some
        \<lparr>cri_pix = Some L1Loss, l_pix_w = Some 1,
         cri_fea = Some MSELoss, l_fea_w = Some 1,
         netF = Some (Plain \<lparr>params = 3, grads = 78, training = False\<rparr>),
         cri_gan = GANLoss ''vanilla'' 1 0, l_gan_w = 1,
         D_update_ratio = 2, D_init_iters = 0,
         random_pt = None, cri_gp = None, l_gp_w = None,
         optimizer_G = 0, optimizer_D = 1,
         log_dict =
           [(''l_g_pix'', Item (3, CPU)), (''l_g_fea'', Item (81, CPU)),
            (''l_g_gan'', Item (- 1, CPU)), (''l_d_real'', Item (- 7, CPU)),
            (''l_d_fake'', Item (2, CPU)), (''D_real'', Tensor (8, CPU)),
            (''D_fake'', Tensor (2, CPU))]\<rparr>,
      var_L = Some (1, CPU), var_H = Some (4, CPU), var_ref = Some (4, CPU),
      fake_H = Some (1, CPU)\<rparr>"

definition model3 :: "(int \<times> device, int, nat) SRGANModel" where
  "model3 =
     \<lparr>opt = cfg0, device = CPU, is_train = True,
      schedulers =
        [\<lparr>sched_optimizer = 0, milestones = [50, 100], gamma = 1, sched_state = 0\<rparr>,
         \<lparr>sched_optimizer = 1, milestones = [50, 100], gamma = 1, sched_state = 0\<rparr>],
      optimizers =
        [\<lparr>opt_params = [''weight''], lr = 1, weight_decay = 0, betas = (1, 0.999),
          opt_state = 1\<rparr>,
         \<lparr>opt_params = [''weight'', ''bias''], lr = 1, weight_decay = 0, betas = (1, 0.999),
          opt_state = 2\<rparr>],
      netG = Plain \<lparr>params = - 82, grads = - 601, training = True\<rparr>,
      netD = Some (DataParallel \<lparr>params = 608, grads = - 601, training = True\<rparr>),
      tr = Some
        \<lparr>cri_pix = Some L1Loss, l_pix_w = Some 1,
         cri_fea = Some MSELoss, l_fea_w = Some 1,
         netF = Some (Plain \<lparr>params = 3, grads = - 523, training = False\<rparr>),
         cri_gan = GANLoss ''vanilla'' 1 0, l_gan_w = 1,
         D_update_ratio = 2, D_init_iters = 0,
         random_pt = None, cri_gp = None, l_gp_w = None,
         optimizer_G = 0, optimizer_D = 1,
         log_dict =
           [(''l_g_pix'', Item (3, CPU)), (''l_g_fea'', Item (81, CPU)),
            (''l_g_gan'', Item (- 1, CPU)), (''l_d_real'', Item (- 27, CPU)),
            (''l_d_fake'', Item (- 574, CPU)), (''D_real'', Tensor (28, CPU)),
            (''D_fake'', Tensor (- 574, CPU))]\<rparr>,
      var_L = Some (1, CPU), var_H = Some (4, CPU), var_ref = Some (4, CPU),
      fake_H = Some (- 82, CPU)\<rparr>"

text \<open>A \<open>wgan-gp\<close> configuration, and the model built from it with a batch fed.\<close>

definition cfg_wgan :: opt where
  "cfg_wgan = cfg0\<lparr>train := (train cfg0)\<lparr>gan_type := ''wgan-gp''\<rparr>\<rparr>"

definition model1w :: "(int \<times> device, int, nat) SRGANModel" where
  "model1w =
     \<lparr>opt = cfg_wgan, device = CPU, is_train = True,
      schedulers =
        [\<lparr>sched_optimizer = 0, milestones = [50, 100], gamma = 1, sched_state = 0\<rparr>,
         \<lparr>sched_optimizer = 1, milestones = [50, 100], gamma = 1, sched_state = 0\<rparr>],
      optimizers =
        [\<lparr>opt_params = [''weight''], lr = 1, weight_decay = 0, betas = (1, 0.999),
          opt_state = 0\<rparr>,
         \<lparr>opt_params = [''weight'', ''bias''], lr = 1, weight_decay = 0, betas = (1, 0.999),
          opt_state = 0\<rparr>],
      netG = Plain \<lparr>params = 1, grads = 0, training = True\<rparr>,
      netD = Some (DataParallel \<lparr>params = 2, grads = 0, training = True\<rparr>),
      tr = Some
        \<lparr>cri_pix = Some L1Loss, l_pix_w = Some 1,
         cri_fea = Some MSELoss, l_fea_w = Some 1,
         netF = Some (Plain \<lparr>params = 3, grads = 0, training = False\<rparr>),
         cri_gan = GANLoss ''wgan-gp'' 1 0, l_gan_w = 1,
         D_update_ratio = 2, D_init_iters = 0,
         random_pt = Some (0, CPU), cri_gp = Some (GradientPenaltyLoss CPU), l_gp_w = Some 10,
         optimizer_G = 0, optimizer_D = 1, log_dict = []\<rparr>,
      var_L = Some (1, CPU), var_H = Some (4, CPU), var_ref = Some (4, CPU), fake_H = None\<rparr>"

section \<open>Properties\<close>

subsection \<open>Basic facts\<close>

lemma module_of_map_module: "module_of (map_module f n) = f (module_of n)"
  by (cases n) simp_all

lemmas net_defs =
  net_to_def net_train_def net_eval_def call_def zero_grad_net_def backward_net_def

text \<open>The concrete framework, one equation per operation.\<close>

lemma toy_simps [simp]:
  "define_G toy cfg = Plain \<lparr>params = 1, grads = 0, training = False\<rparr>"
  "define_D toy cfg = DataParallel \<lparr>params = 2, grads = 0, training = False\<rparr>"
  "define_F toy cfg use_bn = Plain \<lparr>params = 3, grads = 0, training = False\<rparr>"
  "module_to toy d p = p"
  "forward toy grad_enabled trn p x = (p * fst x, snd x)"
  "named_parameters toy p = [(''weight'', True), (''bias'', False)]"
  "state_dict toy p = [(''weight'', (p, CUDA)), (''bias'', (0, CUDA))]"
  "to toy d x = (fst x, d)"
  "detach toy x = x"
  "set_requires_grad toy x = x"
  "radd toy n x = (n + fst x, snd x)"
  "add toy x y = (fst x + fst y, snd x)"
  "mul toy x y = (fst x * fst y, snd x)"
  "rsub toy n x = (n - fst x, snd x)"
  "rmul toy w x = (\<lfloor>w\<rfloor> * fst x, snd x)"
  "mean toy x = x"
  "new_tensor toy shape = (0, CPU)"
  "size0 toy x = 1"
  "resize toy x shape = x"
  "uniform toy x rng = ((int rng, snd x), Suc rng)"
  "criterion toy L1Loss x y = (\<bar>fst x - fst y\<bar>, snd x)"
  "criterion toy MSELoss x y = ((fst x - fst y) * (fst x - fst y), snd x)"
  "gan_loss toy c pred True = (1 - fst pred, snd pred)"
  "gan_loss toy c pred False = pred"
  "gp_loss toy gc x y = (fst x + fst y, snd x)"
  "zero_grad toy g = 0"
  "backward toy l m = grads m + fst l"
  "adam_init toy = 0"
  "adam_step toy ot m = (params m - grads m, Suc (opt_state ot))"
  "optimizer_load_state_dict toy ot st = Inr (ot\<lparr>opt_state := st\<rparr>)"
  "multistep_init toy = 0"
  "scheduler_load_state_dict toy s st = s\<lparr>sched_state := st\<rparr>"
  by (simp_all add: toy_def)

lemma init_networks_toy:
  "init_networks toy cfg0 =
     \<lparr>opt = cfg0, device = CPU, is_train = True, schedulers = [], optimizers = [],
      netG = Plain \<lparr>params = 1, grads = 0, training = True\<rparr>,
      netD = Some (DataParallel \<lparr>params = 2, grads = 0, training = True\<rparr>),
      tr = None, var_L = None, var_H = None, var_ref = None, fake_H = None\<rparr>"
  by (simp add: init_networks_def BaseModel_init_def BaseModel.defs SRGANModel.defs net_defs
      Let_def cfg0_def)

lemma cfg0_simps [simp]:
  "gpu_ids cfg0 = None" "is_train_opt cfg0 = True"
  "pretrain_model_G (path cfg0) = None" "pretrain_model_D (path cfg0) = None"
  "models (path cfg0) = ''exp/models''"
  "pixel_weight (train cfg0) = 1" "pixel_criterion (train cfg0) = ''l1''"
  "feature_weight (train cfg0) = 1" "feature_criterion (train cfg0) = ''l2''"
  "gan_type (train cfg0) = ''vanilla''" "gan_weight (train cfg0) = 1"
  "D_update_ratio_opt (train cfg0) = Some 2" "D_init_iters_opt (train cfg0) = None"
  "gp_weigth (train cfg0) = 10"
  "weight_decay_G (train cfg0) = None" "lr_G (train cfg0) = 1" "beta1_G (train cfg0) = 1"
  "weight_decay_D (train cfg0) = None" "lr_D (train cfg0) = 1" "beta1_D (train cfg0) = 1"
  "lr_scheme (train cfg0) = ''MultiStepLR''" "lr_steps (train cfg0) = [50, 100]"
  "lr_gamma (train cfg0) = 1"
  by (simp_all add: cfg0_def)

lemma SRGANModel_init_toy: "SRGANModel_init toy Map.empty cfg0 = Inr model0"
  by (simp add: SRGANModel_init_def load_def init_networks_toy init_train_def init_cri_pix_def
      init_cri_fea_def init_optim_def Let_def net_defs model0_def upt_rec numeral_2_eq_2)

lemma str_int_5000: "str_int 5000 = ''5000''"
  by (simp add: str_int_def str_nat.simps)

lemma SRGANModel_init_toy_test:
  "SRGANModel_init toy Map.empty (cfg0\<lparr>is_train_opt := False\<rparr>) =
     Inr \<lparr>opt = cfg0\<lparr>is_train_opt := False\<rparr>, device = CPU, is_train = False,
          schedulers = [], optimizers = [],
          netG = Plain \<lparr>params = 1, grads = 0, training = False\<rparr>,
          netD = None, tr = None, var_L = None, var_H = None, var_ref = None, fake_H = None\<rparr>"
  by (simp add: SRGANModel_init_def load_def init_networks_def BaseModel_init_def
      BaseModel.defs SRGANModel.defs net_defs Let_def)


text \<open>What the stages of the constructor leave alone.\<close>

lemma init_networks_facts:
  "opt (init_networks fw cfg) = cfg"
  "is_train (init_networks fw cfg) = is_train_opt cfg"
  "netD (init_networks fw cfg) = None \<longleftrightarrow> \<not> is_train_opt cfg"
  "optimizers (init_networks fw cfg) = []"
  "schedulers (init_networks fw cfg) = []"
  "tr (init_networks fw cfg) = None"
  by (simp_all add: init_networks_def BaseModel_init_def BaseModel.defs SRGANModel.defs Let_def)

lemma load_frame:
  assumes "load fw fs self = Inr self'"
  shows "opt self' = opt self" "is_train self' = is_train self"
    "netD self' = None \<longleftrightarrow> netD self = None"
    "optimizers self' = optimizers self" "schedulers self' = schedulers self"
    "tr self' = tr self" "device self' = device self"
  using assms
  by (auto simp: load_def split: option.splits sum.splits if_splits)

lemma init_optim_frame:
  assumes "init_optim fw self pix fea d = Inr self'"
  shows "netD self' = netD self" "netG self' = netG self" "opt self' = opt self"
    "is_train self' = is_train self"
  using assms
  by (auto simp: init_optim_def Let_def split: if_splits)

lemma init_train_frame:
  assumes "init_train fw self = Inr self'"
  shows "netD self' = netD self" "netG self' = netG self" "opt self' = opt self"
    "is_train self' = is_train self"
  using assms
  by (auto simp: init_train_def split: option.splits sum.splits dest: init_optim_frame)

lemma SRGANModel_init_netD:
  assumes "SRGANModel_init fw fs cfg = Inr self"
  shows "netD self = None \<longleftrightarrow> \<not> is_train_opt cfg"
proof -
  from assms obtain s1 where l: "load fw fs (init_networks fw cfg) = Inr s1"
    and r: "(if is_train s1 then init_train fw s1 else Inr s1) = Inr self"
    by (auto simp: SRGANModel_init_def split: sum.splits)
  from load_frame [OF l] have "netD s1 = None \<longleftrightarrow> \<not> is_train_opt cfg"
    by (simp add: init_networks_facts)
  moreover from r have "netD self = netD s1"
    by (auto split: if_splits dest: init_train_frame)
  ultimately show ?thesis by simp
qed

lemma SRGANModel_init_stages:
  assumes "load fw fs (init_networks fw cfg) = Inr self" and "is_train_opt cfg"
  shows "SRGANModel_init fw fs cfg = init_train fw self" "opt self = cfg" "netD self \<noteq> None"
  using assms load_frame [OF assms(1)]
  by (simp_all add: SRGANModel_init_def init_networks_facts)

subsection \<open>\<open>feed_data\<close>: the reference image\<close>

text \<open>
  Claim C9. For a batch dictionary that holds the low-resolution and the high-resolution
  image (the batch of the data model: \<open>LR\<close>, \<open>HR\<close> and an optional \<open>ref\<close>),
  \<open>feed_data(data, need_HR=True)\<close> returns, and the reference it stores is the entry
  \<open>ref\<close> when the dictionary has one and the high-resolution image otherwise, moved to
  the model's device. So the discriminator's real branch, which reads \<open>self.var_ref\<close>,
  never finds the attribute missing afterwards.
\<close>

theorem feed_data_reference:
  assumes "data ''LR'' = Some x" and "data ''HR'' = Some h"
  shows "case feed_data fw self data True of
           Inl e \<Rightarrow> False
         | Inr self' \<Rightarrow>
             var_ref self' =
               Some (to fw (device self) (case data ''ref'' of Some r \<Rightarrow> r | None \<Rightarrow> h))
             \<and> (\<forall>t d rng fake.
                   discriminator_loss fw self' t d rng fake \<noteq> Inl (AttributeError ''var_ref''))"
  using assms
  by (auto simp: feed_data_def discriminator_loss_def Let_def split: option.splits prod.splits)

text \<open>
  On the batch without a reference the stored reference is the high-resolution image;
  with a reference on another device it is that reference, moved.
\<close>

theorem feed_data_reference_witness:
  "feed_data toy (init_networks toy cfg0) batch0 True
     = Inr ((init_networks toy cfg0)
              \<lparr>var_L := Some (1, CPU), var_H := Some (4, CPU), var_ref := Some (4, CPU)\<rparr>)
   \<and> feed_data toy (init_networks toy cfg0) (batch0(''ref'' \<mapsto> (7, CUDA))) True
     = Inr ((init_networks toy cfg0)
              \<lparr>var_L := Some (1, CPU), var_H := Some (4, CPU), var_ref := Some (7, CPU)\<rparr>)"
  using feed_data_reference [of batch0 "(1, CPU)" "(4, CPU)" toy "init_networks toy cfg0"]
    feed_data_reference [of "batch0(''ref'' \<mapsto> (7, CUDA))" "(1, CPU)" "(4, CPU)" toy
      "init_networks toy cfg0"]
  by (simp add: feed_data_def batch0_def init_networks_toy Let_def)

subsection \<open>\<open>test\<close>: inference\<close>

text \<open>
  Claim C7. Once a low-resolution input is stored, \<open>test()\<close> returns a model that
  differs from the one it was called on in two attributes only: \<open>fake_H\<close> is the
  generator's output on the stored input, computed with gradient tracking off (first
  flag) and the generator in evaluation mode (second flag), and the generator is in
  training mode again. The generator's content and gradients, the discriminator, the
  optimizers, the log and the stored batch are as before.
\<close>

theorem test_effect:
  assumes "var_L self = Some x"
  shows "test fw self =
           Inr (self\<lparr>fake_H := Some (forward fw False False (params (module_of (netG self))) x),
                     netG := map_module (\<lambda>m. m\<lparr>training := True\<rparr>) (netG self)\<rparr>)"
  using assms
  by (cases "netG self") (simp_all add: test_def Let_def call_def net_eval_def net_train_def)

theorem test_effect_witness:
  "test toy ((init_networks toy cfg0)\<lparr>var_L := Some (5, CPU)\<rparr>) =
     Inr ((init_networks toy cfg0)\<lparr>var_L := Some (5, CPU), fake_H := Some (5, CPU)\<rparr>)"
  using test_effect [of "(init_networks toy cfg0)\<lparr>var_L := Some (5, CPU)\<rparr>" "(5, CPU)" toy]
  by (simp add: init_networks_toy)

subsection \<open>\<open>resume_training\<close>: the length checks\<close>

text \<open>
  The loop over \<open>enumerate(resume_optimizers)\<close>, started at any index: when it returns,
  the positions it walked hold the loaded optimizers and the others are untouched.
\<close>

lemma load_optimizers_enumerate:
  assumes "n + length xs \<le> length os"
    and "load_optimizers fw os (enumerate n xs) = Inr os'"
  shows "length os' = length os
    \<and> (\<forall>i. n \<le> i \<and> i < n + length xs \<longrightarrow>
          optimizer_load_state_dict fw (os ! i) (xs ! (i - n)) = Inr (os' ! i))
    \<and> (\<forall>i. i < n \<or> n + length xs \<le> i \<longrightarrow> os' ! i = os ! i)"
  using assms
proof (induction xs arbitrary: n os)
  case Nil
  then show ?case by auto
next
  case (Cons x xs)
  from Cons.prems have n: "n < length os" by simp
  from Cons.prems n obtain y where
    y: "optimizer_load_state_dict fw (os ! n) x = Inr y"
    and rest: "load_optimizers fw (os[n := y]) (enumerate (Suc n) xs) = Inr os'"
    by (auto split: sum.splits)
  from Cons.prems have "Suc n + length xs \<le> length (os[n := y])" by simp
  from Cons.IH [OF this rest]
  have len: "length os' = length os"
    and loaded: "\<And>i. Suc n \<le> i \<Longrightarrow> i < Suc n + length xs \<Longrightarrow>
          optimizer_load_state_dict fw (os[n := y] ! i) (xs ! (i - Suc n)) = Inr (os' ! i)"
    and kept: "\<And>i. i < Suc n \<or> Suc n + length xs \<le> i \<Longrightarrow> os' ! i = os[n := y] ! i"
    by auto
  have "optimizer_load_state_dict fw (os ! i) ((x # xs) ! (i - n)) = Inr (os' ! i)"
    if "n \<le> i" "i < n + length (x # xs)" for i
  proof (cases "i = n")
    case True
    with kept [of n] n y show ?thesis by simp
  next
    case False
    with that have "Suc n \<le> i" "i < Suc n + length xs" by simp_all
    from loaded [OF this] False that show ?thesis
      by (simp add: nth_Cons' Suc_diff_le)
  qed
  moreover have "os' ! i = os ! i" if "i < n \<or> n + length (x # xs) \<le> i" for i
    using kept [of i] that by auto
  ultimately show ?case using len by blast
qed

lemma load_optimizers_total:
  assumes "n + length xs \<le> length os"
    and "\<forall>j < length xs. \<exists>y. optimizer_load_state_dict fw (os ! (n + j)) (xs ! j) = Inr y"
  shows "\<exists>os'. load_optimizers fw os (enumerate n xs) = Inr os'"
  using assms
proof (induction xs arbitrary: n os)
  case Nil
  then show ?case by simp
next
  case (Cons x xs)
  from Cons.prems have n: "n < length os" by simp
  from Cons.prems(2) [rule_format, of 0] obtain y where
    y: "optimizer_load_state_dict fw (os ! n) x = Inr y" by auto
  have "\<forall>j < length xs. \<exists>z.
          optimizer_load_state_dict fw (os[n := y] ! (Suc n + j)) (xs ! j) = Inr z"
  proof (intro allI impI)
    fix j assume "j < length xs"
    with Cons.prems(2) [rule_format, of "Suc j"] show
      "\<exists>z. optimizer_load_state_dict fw (os[n := y] ! (Suc n + j)) (xs ! j) = Inr z"
      by simp
  qed
  moreover from Cons.prems have "Suc n + length xs \<le> length (os[n := y])" by simp
  ultimately obtain os' where "load_optimizers fw (os[n := y]) (enumerate (Suc n) xs) = Inr os'"
    using Cons.IH by blast
  with n y show ?case by simp
qed

lemma load_schedulers_enumerate:
  assumes "n + length xs \<le> length ss"
  shows "\<exists>ss'. load_schedulers fw ss (enumerate n xs) = Inr ss'
    \<and> length ss' = length ss
    \<and> (\<forall>i. n \<le> i \<and> i < n + length xs \<longrightarrow>
          ss' ! i = scheduler_load_state_dict fw (ss ! i) (xs ! (i - n)))
    \<and> (\<forall>i. i < n \<or> n + length xs \<le> i \<longrightarrow> ss' ! i = ss ! i)"
  using assms
proof (induction xs arbitrary: n ss)
  case Nil
  then show ?case by auto
next
  case (Cons x xs)
  let ?ss = "ss[n := scheduler_load_state_dict fw (ss ! n) x]"
  from Cons.prems have n: "n < length ss" by simp
  from Cons.prems have "Suc n + length xs \<le> length ?ss" by simp
  from Cons.IH [OF this] obtain ss' where
    run: "load_schedulers fw ?ss (enumerate (Suc n) xs) = Inr ss'"
    and len: "length ss' = length ?ss"
    and loaded': "\<forall>i. Suc n \<le> i \<and> i < Suc n + length xs \<longrightarrow>
          ss' ! i = scheduler_load_state_dict fw (?ss ! i) (xs ! (i - Suc n))"
    and kept': "\<forall>i. i < Suc n \<or> Suc n + length xs \<le> i \<longrightarrow> ss' ! i = ?ss ! i"
    by blast
  have loaded: "ss' ! i = scheduler_load_state_dict fw (?ss ! i) (xs ! (i - Suc n))"
    if "Suc n \<le> i" "i < Suc n + length xs" for i
    using loaded' that by blast
  have kept: "ss' ! i = ?ss ! i" if "i < Suc n \<or> Suc n + length xs \<le> i" for i
    using kept' that by blast
  have "ss' ! i = scheduler_load_state_dict fw (ss ! i) ((x # xs) ! (i - n))"
    if "n \<le> i" "i < n + length (x # xs)" for i
  proof (cases "i = n")
    case True
    with kept [of n] n show ?thesis by simp
  next
    case False
    with that have "Suc n \<le> i" "i < Suc n + length xs" by simp_all
    from loaded [OF this] False that show ?thesis
      by (simp add: nth_Cons' Suc_diff_le)
  qed
  moreover have "ss' ! i = ss ! i" if "i < n \<or> n + length (x # xs) \<le> i" for i
    using kept [of i] that by auto
  ultimately show ?case using len run n by auto
qed

text \<open>
  Claim C6. \<open>resume_training\<close> raises \<open>AssertionError\<close> when the saved optimizer list
  has another length than \<open>self.optimizers\<close>, and when the saved scheduler list has
  another length than \<open>self.schedulers\<close>; nothing is loaded then. When it returns, both
  lengths matched, and the \<open>i\<close>-th optimizer and scheduler are the old \<open>i\<close>-th ones with the
  \<open>i\<close>-th saved state loaded, every other attribute being as before. It does return when
  the lengths match and no optimizer refuses its state.
\<close>

theorem resume_training_lengths:
  "(length (rs_optimizers rs) \<noteq> length (optimizers self) \<longrightarrow>
      resume_training fw self rs = Inl (AssertionError ''Wrong lengths of optimizers''))
   \<and> (length (rs_optimizers rs) = length (optimizers self)
        \<and> length (rs_schedulers rs) \<noteq> length (schedulers self) \<longrightarrow>
      resume_training fw self rs = Inl (AssertionError ''Wrong lengths of schedulers''))
   \<and> (\<forall>self'. resume_training fw self rs = Inr self' \<longrightarrow>
        length (rs_optimizers rs) = length (optimizers self)
        \<and> length (rs_schedulers rs) = length (schedulers self)
        \<and> length (optimizers self') = length (optimizers self)
        \<and> length (schedulers self') = length (schedulers self)
        \<and> (\<forall>i < length (optimizers self).
              optimizer_load_state_dict fw (optimizers self ! i) (rs_optimizers rs ! i)
                = Inr (optimizers self' ! i))
        \<and> (\<forall>i < length (schedulers self).
              schedulers self' ! i
                = scheduler_load_state_dict fw (schedulers self ! i) (rs_schedulers rs ! i))
        \<and> self' = self\<lparr>optimizers := optimizers self', schedulers := schedulers self'\<rparr>)
   \<and> (length (rs_optimizers rs) = length (optimizers self)
        \<and> length (rs_schedulers rs) = length (schedulers self)
        \<and> (\<forall>i < length (optimizers self). \<exists>y.
              optimizer_load_state_dict fw (optimizers self ! i) (rs_optimizers rs ! i) = Inr y)
       \<longrightarrow> (\<exists>self'. resume_training fw self rs = Inr self'))"
proof (intro conjI impI allI)
  assume "length (rs_optimizers rs) \<noteq> length (optimizers self)"
  then show "resume_training fw self rs = Inl (AssertionError ''Wrong lengths of optimizers'')"
    by (simp add: resume_training_def)
next
  assume "length (rs_optimizers rs) = length (optimizers self)
    \<and> length (rs_schedulers rs) \<noteq> length (schedulers self)"
  then show "resume_training fw self rs = Inl (AssertionError ''Wrong lengths of schedulers'')"
    by (simp add: resume_training_def)
next
  fix self' assume run: "resume_training fw self rs = Inr self'"
  from run have lo: "length (rs_optimizers rs) = length (optimizers self)"
    and ls: "length (rs_schedulers rs) = length (schedulers self)"
    by (auto simp: resume_training_def Let_def split: if_splits)
  from run lo ls obtain os ss where
    os: "load_optimizers fw (optimizers self) (enumerate 0 (rs_optimizers rs)) = Inr os"
    and ss: "load_schedulers fw (schedulers self) (enumerate 0 (rs_schedulers rs)) = Inr ss"
    and self': "self' = self\<lparr>optimizers := os, schedulers := ss\<rparr>"
    by (auto simp: resume_training_def Let_def split: sum.splits)
  from load_optimizers_enumerate [OF _ os] lo
  have o1: "length os = length (optimizers self)"
    and o2: "\<And>i. i < length (optimizers self) \<Longrightarrow>
      optimizer_load_state_dict fw (optimizers self ! i) (rs_optimizers rs ! i) = Inr (os ! i)"
    by auto
  from load_schedulers_enumerate [of 0 "rs_schedulers rs" "schedulers self" fw] ls ss
  have s1: "length ss = length (schedulers self)"
    and s2: "\<And>i. i < length (schedulers self) \<Longrightarrow>
      ss ! i = scheduler_load_state_dict fw (schedulers self ! i) (rs_schedulers rs ! i)"
    by auto
  show "length (rs_optimizers rs) = length (optimizers self)" by (rule lo)
  show "length (rs_schedulers rs) = length (schedulers self)" by (rule ls)
  show "length (optimizers self') = length (optimizers self)" using o1 self' by simp
  show "length (schedulers self') = length (schedulers self)" using s1 self' by simp
  show "optimizer_load_state_dict fw (optimizers self ! i) (rs_optimizers rs ! i)
          = Inr (optimizers self' ! i)" if "i < length (optimizers self)" for i
    using o2 [OF that] self' by simp
  show "schedulers self' ! i
          = scheduler_load_state_dict fw (schedulers self ! i) (rs_schedulers rs ! i)"
    if "i < length (schedulers self)" for i
    using s2 [OF that] self' by simp
  show "self' = self\<lparr>optimizers := optimizers self', schedulers := schedulers self'\<rparr>"
    using self' by simp
next
  assume a: "length (rs_optimizers rs) = length (optimizers self)
        \<and> length (rs_schedulers rs) = length (schedulers self)
        \<and> (\<forall>i < length (optimizers self). \<exists>y.
              optimizer_load_state_dict fw (optimizers self ! i) (rs_optimizers rs ! i) = Inr y)"
  then obtain os where
    "load_optimizers fw (optimizers self) (enumerate 0 (rs_optimizers rs)) = Inr os"
    using load_optimizers_total [of 0 "rs_optimizers rs" "optimizers self" fw] by auto
  moreover from a obtain ss where
    "load_schedulers fw (schedulers self) (enumerate 0 (rs_schedulers rs)) = Inr ss"
    using load_schedulers_enumerate [of 0 "rs_schedulers rs" "schedulers self" fw] by auto
  ultimately show "\<exists>self'. resume_training fw self rs = Inr self'"
    using a by (simp add: resume_training_def)
qed

theorem resume_training_lengths_witness:
  "resume_training toy model0
       \<lparr>rs_epoch = 3, rs_iter = 5000, rs_schedulers = [7, 8], rs_optimizers = [9]\<rparr>
     = Inl (AssertionError ''Wrong lengths of optimizers'')
   \<and> resume_training toy model0
       \<lparr>rs_epoch = 3, rs_iter = 5000, rs_schedulers = [7, 8, 6], rs_optimizers = [9, 10]\<rparr>
     = Inl (AssertionError ''Wrong lengths of schedulers'')
   \<and> resume_training toy model0
       \<lparr>rs_epoch = 3, rs_iter = 5000, rs_schedulers = [7, 8], rs_optimizers = [9, 10]\<rparr>
     = Inr (model0
         \<lparr>optimizers :=
            [\<lparr>opt_params = [''weight''], lr = 1, weight_decay = 0, betas = (1, 0.999),
              opt_state = 9\<rparr>,
             \<lparr>opt_params = [''weight'', ''bias''], lr = 1, weight_decay = 0, betas = (1, 0.999),
              opt_state = 10\<rparr>],
          schedulers :=
            [\<lparr>sched_optimizer = 0, milestones = [50, 100], gamma = 1, sched_state = 7\<rparr>,
             \<lparr>sched_optimizer = 1, milestones = [50, 100], gamma = 1, sched_state = 8\<rparr>]\<rparr>)"
  using resume_training_lengths [of
      "\<lparr>rs_epoch = 3, rs_iter = 5000, rs_schedulers = [7, 8], rs_optimizers = [9]\<rparr>" model0 toy]
    resume_training_lengths [of
      "\<lparr>rs_epoch = 3, rs_iter = 5000, rs_schedulers = [7, 8, 6], rs_optimizers = [9, 10]\<rparr>"
      model0 toy]
    resume_training_lengths [of
      "\<lparr>rs_epoch = 3, rs_iter = 5000, rs_schedulers = [7, 8], rs_optimizers = [9, 10]\<rparr>"
      model0 toy]
  by (simp add: model0_def resume_training_def enumerate_eq_zip upt_rec numeral_2_eq_2)

subsection \<open>\<open>save_network\<close>: checkpoints on the host\<close>






subsection \<open>\<open>save\<close>: the discriminator must exist\<close>

text \<open>
  Claim C10. A model that the constructor returns has a discriminator exactly when it
  was built with \<open>is_train\<close> true, and \<open>save(iter_step)\<close> completes without an exception
  exactly then. On a model built with \<open>is_train\<close> false, \<open>save\<close> writes the generator's
  checkpoint and then raises \<open>AttributeError\<close> on \<open>self.netD\<close>.
\<close>

theorem save_needs_discriminator:
  assumes "SRGANModel_init fw fs cfg = Inr self"
  shows "(netD self \<noteq> None \<longleftrightarrow> is_train_opt cfg)
    \<and> (snd (save fw self fs' iter_step) = None \<longleftrightarrow> is_train_opt cfg)
    \<and> (\<not> is_train_opt cfg \<longrightarrow>
          save fw self fs' iter_step =
            (save_network fw self fs' (netG self) ''G'' iter_step,
             Some (AttributeError ''netD'')))"
  using SRGANModel_init_netD [OF assms]
  by (auto simp: save_def Let_def split: option.splits)

theorem save_needs_discriminator_witness:
  "save toy model0 Map.empty 5000 =
     ([''exp/models/5000_G.pth'' \<mapsto> [(''weight'', (1, CPU)), (''bias'', (0, CPU))],
       ''exp/models/5000_D.pth'' \<mapsto> [(''weight'', (2, CPU)), (''bias'', (0, CPU))]], None)
   \<and> save toy
       \<lparr>opt = cfg0\<lparr>is_train_opt := False\<rparr>, device = CPU, is_train = False,
        schedulers = [], optimizers = [],
        netG = Plain \<lparr>params = 1, grads = 0, training = False\<rparr>,
        netD = None, tr = None, var_L = None, var_H = None, var_ref = None, fake_H = None\<rparr>
       Map.empty 5000 =
     ([''exp/models/5000_G.pth'' \<mapsto> [(''weight'', (1, CPU)), (''bias'', (0, CPU))]],
      Some (AttributeError ''netD''))"
  using save_needs_discriminator [OF SRGANModel_init_toy, of Map.empty 5000]
    save_needs_discriminator [OF SRGANModel_init_toy_test, of Map.empty 5000]
  by (simp add: save_def save_network_def cpu_items_def model0_def str_int_5000 path_join_def
      Let_def)

subsection \<open>The constructor: loss types\<close>




subsection \<open>The constructor: learning-rate scheme\<close>


lemma init_optim_scheme:
  "init_optim fw self pix fea d =
     (if lr_scheme (train (opt self)) = ''MultiStepLR'' then init_optim fw self pix fea d
      else Inl (NotImplementedError ''MultiStepLR learning rate scheme is enough.''))"
  by (simp add: init_optim_def Let_def)




subsection \<open>One training step, branch by branch\<close>

text \<open>
  Forward passes read the content and the mode of a network, not its gradients.
\<close>

lemma call_zero_grad_net [simp]: "call fw ge (zero_grad_net fw n) x = call fw ge n x"
  by (cases n) (simp_all add: call_def zero_grad_net_def)

lemma call_backward_net [simp]: "call fw ge (backward_net fw l n) x = call fw ge n x"
  by (cases n) (simp_all add: call_def backward_net_def)

lemma params_zero_grad_net [simp]:
  "params (module_of (zero_grad_net fw n)) = params (module_of n)"
  "training (module_of (zero_grad_net fw n)) = training (module_of n)"
  by (cases n; simp add: zero_grad_net_def)+

lemma params_backward_net [simp]:
  "params (module_of (backward_net fw l n)) = params (module_of n)"
  "training (module_of (backward_net fw l n)) = training (module_of n)"
  by (cases n; simp add: backward_net_def)+

lemma module_of_zero_grad_net:
  "module_of (zero_grad_net fw n) = (module_of n)\<lparr>grads := zero_grad fw (grads (module_of n))\<rparr>"
  by (cases n) (simp_all add: zero_grad_net_def)

lemma module_of_backward_net:
  "module_of (backward_net fw l n) = (module_of n)\<lparr>grads := backward fw l (module_of n)\<rparr>"
  by (cases n) (simp_all add: backward_net_def)

text \<open>The losses read few attributes, and return on a model that has them.\<close>

lemma generator_loss_frame:
  "var_H a = var_H b \<Longrightarrow> netD a = netD b \<Longrightarrow> generator_loss fw a t fake = generator_loss fw b t fake"
  by (simp add: generator_loss_def pixel_term_def feature_term_def
      cong: option.case_cong sum.case_cong)

lemma generator_loss_returns:
  assumes "netD self = Some d" and "var_H self = Some h"
    and "cri_pix t \<noteq> None \<longrightarrow> l_pix_w t \<noteq> None"
    and "cri_fea t \<noteq> None \<longrightarrow> l_fea_w t \<noteq> None \<and> netF t \<noteq> None"
  shows "\<exists>lp lfe lg tot. generator_loss fw self t fake = Inr (lp, lfe, lg, tot)"
  using assms
  by (cases "cri_pix t"; cases "cri_fea t")
    (auto simp: generator_loss_def pixel_term_def feature_term_def Let_def)





lemma discriminator_loss_frame:
  assumes "var_ref a = var_ref b" and "opt a = opt b"
    and "cri_gan t = cri_gan u" and "random_pt t = random_pt u"
    and "l_gp_w t = l_gp_w u" and "cri_gp t = cri_gp u"
    and "params (module_of d) = params (module_of e)"
    and "training (module_of d) = training (module_of e)"
  shows "discriminator_loss fw a t d rng fake = discriminator_loss fw b u e rng fake"
  using assms by (simp add: discriminator_loss_def call_def cong: option.case_cong if_cong)

lemma discriminator_loss_returns:
  assumes "var_ref self = Some ref"
    and "gan_type (train (opt self)) = ''wgan-gp'' \<longrightarrow>
           random_pt t \<noteq> None \<and> cri_gp t \<noteq> None \<and> l_gp_w t \<noteq> None"
  shows "\<exists>r. discriminator_loss fw self t d rng fake = Inr r"
  using assms
  by (auto simp: discriminator_loss_def Let_def split: prod.splits)

lemma discriminator_loss_plain:
  assumes "gan_type (train (opt self)) \<noteq> ''wgan-gp''" and "var_ref self = Some ref"
  shows "discriminator_loss fw self t d rng fake =
     Inr (random_pt t, rng,
          gan_loss fw (cri_gan t) (call fw True d ref) True,
          gan_loss fw (cri_gan t) (call fw True d (detach fw fake)) False,
          call fw True d ref, call fw True d (detach fw fake), None,
          add fw (gan_loss fw (cri_gan t) (call fw True d ref) True)
            (gan_loss fw (cri_gan t) (call fw True d (detach fw fake)) False))"
  using assms by (simp add: discriminator_loss_def Let_def)

lemma discriminator_loss_wgan:
  assumes "gan_type (train (opt self)) = ''wgan-gp''" and "var_ref self = Some ref"
    and "random_pt t = Some r" and "l_gp_w t = Some w" and "cri_gp t = Some c"
  shows "discriminator_loss fw self t d rng fake =
     (let r1 = (if size0 fw r \<noteq> size0 fw ref then resize fw r [size0 fw ref, 1, 1, 1] else r);
          u = uniform fw r1 rng;
          interp = set_requires_grad fw
            (add fw (mul fw (fst u) (detach fw fake)) (mul fw (rsub fw 1 (fst u)) ref));
          l_gp = rmul fw w (gp_loss fw c interp (call fw True d interp))
      in Inr (Some (fst u), snd u,
              gan_loss fw (cri_gan t) (call fw True d ref) True,
              gan_loss fw (cri_gan t) (call fw True d (detach fw fake)) False,
              call fw True d ref, call fw True d (detach fw fake), Some l_gp,
              add fw
                (add fw (gan_loss fw (cri_gan t) (call fw True d ref) True)
                   (gan_loss fw (cri_gan t) (call fw True d (detach fw fake)) False))
                l_gp))"
  using assms by (simp add: discriminator_loss_def Let_def split: prod.splits)

lemma discriminator_loss_parts:
  assumes "discriminator_loss fw self t d rng fake
      = Inr (random_pt', rng', l_d_real, l_d_fake, pred_d_real, pred_d_fake, l_d_gp, l_d_total)"
    and "var_ref self = Some ref"
    and "gan_type (train (opt self)) = ''wgan-gp'' \<longrightarrow>
           random_pt t \<noteq> None \<and> cri_gp t \<noteq> None \<and> l_gp_w t \<noteq> None"
  shows "l_d_real = gan_loss fw (cri_gan t) (call fw True d ref) True"
    "l_d_fake = gan_loss fw (cri_gan t) (call fw True d (detach fw fake)) False"
    "if gan_type (train (opt self)) = ''wgan-gp''
     then (\<exists>r w c. random_pt t = Some r \<and> l_gp_w t = Some w \<and> cri_gp t = Some c
            \<and> (let r1 = (if size0 fw r \<noteq> size0 fw ref
                           then resize fw r [size0 fw ref, 1, 1, 1] else r);
                    u = uniform fw r1 rng;
                    interp = set_requires_grad fw
                      (add fw (mul fw (fst u) (detach fw fake)) (mul fw (rsub fw 1 (fst u)) ref));
                    l_gp = rmul fw w (gp_loss fw c interp (call fw True d interp))
                in rng' = snd u \<and> l_d_gp = Some l_gp
                   \<and> l_d_total = add fw (add fw l_d_real l_d_fake) l_gp))
     else rng' = rng \<and> l_d_gp = None \<and> l_d_total = add fw l_d_real l_d_fake"
proof -
  show "l_d_real = gan_loss fw (cri_gan t) (call fw True d ref) True"
    "l_d_fake = gan_loss fw (cri_gan t) (call fw True d (detach fw fake)) False"
    "if gan_type (train (opt self)) = ''wgan-gp''
     then (\<exists>r w c. random_pt t = Some r \<and> l_gp_w t = Some w \<and> cri_gp t = Some c
            \<and> (let r1 = (if size0 fw r \<noteq> size0 fw ref
                           then resize fw r [size0 fw ref, 1, 1, 1] else r);
                    u = uniform fw r1 rng;
                    interp = set_requires_grad fw
                      (add fw (mul fw (fst u) (detach fw fake)) (mul fw (rsub fw 1 (fst u)) ref));
                    l_gp = rmul fw w (gp_loss fw c interp (call fw True d interp))
                in rng' = snd u \<and> l_d_gp = Some l_gp
                   \<and> l_d_total = add fw (add fw l_d_real l_d_fake) l_gp))
     else rng' = rng \<and> l_d_gp = None \<and> l_d_total = add fw l_d_real l_d_fake"
  proof (atomize (full), cases "gan_type (train (opt self)) = ''wgan-gp''")
    case True
    with assms(3) obtain r w c where
      rwc: "random_pt t = Some r" "l_gp_w t = Some w" "cri_gp t = Some c"
      by auto
    from assms(1) discriminator_loss_wgan [OF True assms(2) rwc, of fw d rng fake]
    show "l_d_real = gan_loss fw (cri_gan t) (call fw True d ref) True
      \<and> l_d_fake = gan_loss fw (cri_gan t) (call fw True d (detach fw fake)) False
      \<and> (if gan_type (train (opt self)) = ''wgan-gp''
         then (\<exists>r w c. random_pt t = Some r \<and> l_gp_w t = Some w \<and> cri_gp t = Some c
            \<and> (let r1 = (if size0 fw r \<noteq> size0 fw ref
                           then resize fw r [size0 fw ref, 1, 1, 1] else r);
                    u = uniform fw r1 rng;
                    interp = set_requires_grad fw
                      (add fw (mul fw (fst u) (detach fw fake)) (mul fw (rsub fw 1 (fst u)) ref));
                    l_gp = rmul fw w (gp_loss fw c interp (call fw True d interp))
                in rng' = snd u \<and> l_d_gp = Some l_gp
                   \<and> l_d_total = add fw (add fw l_d_real l_d_fake) l_gp))
         else rng' = rng \<and> l_d_gp = None \<and> l_d_total = add fw l_d_real l_d_fake)"
      using True rwc by (auto simp: Let_def)
  next
    case False
    from assms(1) discriminator_loss_plain [OF False assms(2), of fw t d rng fake]
    show "l_d_real = gan_loss fw (cri_gan t) (call fw True d ref) True
      \<and> l_d_fake = gan_loss fw (cri_gan t) (call fw True d (detach fw fake)) False
      \<and> (if gan_type (train (opt self)) = ''wgan-gp''
         then (\<exists>r w c. random_pt t = Some r \<and> l_gp_w t = Some w \<and> cri_gp t = Some c
            \<and> (let r1 = (if size0 fw r \<noteq> size0 fw ref
                           then resize fw r [size0 fw ref, 1, 1, 1] else r);
                    u = uniform fw r1 rng;
                    interp = set_requires_grad fw
                      (add fw (mul fw (fst u) (detach fw fake)) (mul fw (rsub fw 1 (fst u)) ref));
                    l_gp = rmul fw w (gp_loss fw c interp (call fw True d interp))
                in rng' = snd u \<and> l_d_gp = Some l_gp
                   \<and> l_d_total = add fw (add fw l_d_real l_d_fake) l_gp))
         else rng' = rng \<and> l_d_gp = None \<and> l_d_total = add fw l_d_real l_d_fake)"
      using False by auto
  qed
qed

lemma discriminator_loss_random_pt:
  assumes "discriminator_loss fw self t d rng fake = Inr (rp, rng', l1, l2, p1, p2, gp, tot)"
    and "gan_type (train (opt self)) = ''wgan-gp''"
  shows "rp \<noteq> None"
  using assms
  by (cases "var_ref self"; cases "random_pt t"; cases "l_gp_w t"; cases "cri_gp t")
    (auto simp: discriminator_loss_def Let_def split: prod.splits)

text \<open>The two update steps, with the local bindings substituted.\<close>

lemma generator_step_eq:
  "generator_step fw self t fake =
     (case generator_loss fw self t fake of
        Inl e \<Rightarrow> Inl e
      | Inr (lp, lfe, lg, tot) \<Rightarrow>
          Inr (self\<lparr>netG := backward_net fw tot (netG self),
                    netD := map_option (backward_net fw tot) (netD self),
                    optimizers := (optimizers self)
                      [optimizer_G t := (optimizers self ! optimizer_G t)
                         \<lparr>opt_state := snd (adam_step fw (optimizers self ! optimizer_G t)
                             (module_of (backward_net fw tot (netG self))))\<rparr>],
                    netG := map_module
                      (\<lambda>m. m\<lparr>params := fst (adam_step fw (optimizers self ! optimizer_G t)
                                 (module_of (backward_net fw tot (netG self))))\<rparr>)
                      (backward_net fw tot (netG self))\<rparr>,
               t\<lparr>netF := map_option (backward_net fw tot) (netF t)\<rparr>,
               (lp, lfe, lg)))"
  by (simp add: generator_step_def backward_all_def optimizer_step_def Let_def
      split: sum.splits prod.splits)

lemma discriminator_step_eq:
  "discriminator_step fw self t rng fake =
     (case netD self of
        None \<Rightarrow> Inl (AttributeError ''netD'')
      | Some d0 \<Rightarrow>
          (case discriminator_loss fw (self\<lparr>netD := Some (zero_grad_net fw d0)\<rparr>) t
                  (zero_grad_net fw d0) rng fake of
             Inl e \<Rightarrow> Inl e
           | Inr (random_pt', rng', l_d_real, l_d_fake, pred_d_real, pred_d_fake, l_d_gp, l_d_total) \<Rightarrow>
               Inr (self\<lparr>netG := backward_net fw l_d_total (netG self),
                         optimizers := (optimizers self)
                           [optimizer_D t := (optimizers self ! optimizer_D t)
                              \<lparr>opt_state := snd (adam_step fw (optimizers self ! optimizer_D t)
                                  (module_of (backward_net fw l_d_total (zero_grad_net fw d0))))\<rparr>],
                         netD := Some (map_module
                           (\<lambda>m. m\<lparr>params := fst (adam_step fw (optimizers self ! optimizer_D t)
                                      (module_of (backward_net fw l_d_total (zero_grad_net fw d0))))\<rparr>)
                           (backward_net fw l_d_total (zero_grad_net fw d0)))\<rparr>,
                    t\<lparr>random_pt := random_pt',
                      netF := map_option (backward_net fw l_d_total) (netF t)\<rparr>,
                    rng', (l_d_real, l_d_fake, pred_d_real, pred_d_fake, l_d_gp))))"
  by (simp add: discriminator_step_def backward_all_def optimizer_step_def Let_def
      split: option.splits sum.splits prod.splits)


lemma ready_D:
  assumes "ready self" and "tr self = Some t"
  shows "\<exists>d. netD self = Some d" "\<exists>x. var_L self = Some x" "\<exists>h. var_H self = Some h"
    "\<exists>r. var_ref self = Some r" "D_update_ratio t \<noteq> 0"
    "cri_pix t \<noteq> None \<longrightarrow> l_pix_w t \<noteq> None"
    "cri_fea t \<noteq> None \<longrightarrow> l_fea_w t \<noteq> None \<and> netF t \<noteq> None"
    "gan_type (train (opt self)) = ''wgan-gp'' \<longrightarrow>
       random_pt t \<noteq> None \<and> cri_gp t \<noteq> None \<and> l_gp_w t \<noteq> None"
    "optimizer_G t < length (optimizers self)" "optimizer_D t < length (optimizers self)"
    "optimizer_G t \<noteq> optimizer_D t"
  using assms by (auto simp: ready_def)

text \<open>The step when the generator branch is skipped.\<close>

lemma update_networks_skip:
  assumes "ready self" and "tr self = Some t" and "var_L self = Some x" and "netD self = Some d"
    and "\<not> update_due t step"
  shows "\<exists>rp rng' l_real l_fake p_real p_fake gp tot self4 t4.
           discriminator_loss fw self t d rng (call fw True (netG self) x)
             = Inr (rp, rng', l_real, l_fake, p_real, p_fake, gp, tot)
         \<and> update_networks fw self t rng step = Inr (self4, t4, rng', None, (l_real, l_fake, p_real, p_fake, gp))
         \<and> netG self4 = backward_net fw tot (zero_grad_net fw (netG self))
         \<and> netD self4 = Some (map_module
              (\<lambda>m. m\<lparr>params := fst (adam_step fw (optimizers self ! optimizer_D t)
                         (module_of (backward_net fw tot (zero_grad_net fw d))))\<rparr>)
              (backward_net fw tot (zero_grad_net fw d)))
         \<and> optimizers self4 = (optimizers self)
              [optimizer_D t := (optimizers self ! optimizer_D t)
                 \<lparr>opt_state := snd (adam_step fw (optimizers self ! optimizer_D t)
                     (module_of (backward_net fw tot (zero_grad_net fw d))))\<rparr>]
         \<and> t4 = t\<lparr>random_pt := rp, netF := map_option (backward_net fw tot) (netF t)\<rparr>
         \<and> var_L self4 = var_L self \<and> var_H self4 = var_H self
         \<and> var_ref self4 = var_ref self \<and> opt self4 = opt self"
proof -
  let ?fake = "call fw True (netG self) x"
  let ?self2 = "self\<lparr>netG := zero_grad_net fw (netG self), fake_H := Some ?fake\<rparr>"
  from ready_D [OF assms(1,2)] obtain ref where ref: "var_ref self = Some ref" by blast
  from discriminator_loss_returns [of self ref t fw d rng ?fake] ref ready_D(8) [OF assms(1,2)]
  obtain rp rng' l_real l_fake p_real p_fake gp tot where
    dl: "discriminator_loss fw self t d rng ?fake = Inr (rp, rng', l_real, l_fake, p_real, p_fake, gp, tot)"
    by (metis prod_cases3)
  have "discriminator_loss fw (?self2\<lparr>netD := Some (zero_grad_net fw d)\<rparr>) t (zero_grad_net fw d) rng ?fake
        = discriminator_loss fw self t d rng ?fake"
    by (rule discriminator_loss_frame) simp_all
  with dl have dl2: "discriminator_loss fw (?self2\<lparr>netD := Some (zero_grad_net fw d)\<rparr>) t
      (zero_grad_net fw d) rng ?fake = Inr (rp, rng', l_real, l_fake, p_real, p_fake, gp, tot)"
    by simp
  have gp: "generator_phase fw ?self2 t step ?fake = Inr (?self2, t, None)"
    using assms(5) by (simp add: generator_phase_def)
  have ds: "discriminator_step fw ?self2 t rng ?fake =
      Inr (?self2\<lparr>netG := backward_net fw tot (netG ?self2),
                  optimizers := (optimizers ?self2)
                    [optimizer_D t := (optimizers ?self2 ! optimizer_D t)
                       \<lparr>opt_state := snd (adam_step fw (optimizers ?self2 ! optimizer_D t)
                           (module_of (backward_net fw tot (zero_grad_net fw d))))\<rparr>],
                  netD := Some (map_module
                    (\<lambda>m. m\<lparr>params := fst (adam_step fw (optimizers ?self2 ! optimizer_D t)
                               (module_of (backward_net fw tot (zero_grad_net fw d))))\<rparr>)
                    (backward_net fw tot (zero_grad_net fw d)))\<rparr>,
           t\<lparr>random_pt := rp, netF := map_option (backward_net fw tot) (netF t)\<rparr>,
           rng', (l_real, l_fake, p_real, p_fake, gp))"
    using assms(4) dl2 by (simp add: discriminator_step_eq)
  have un: "update_networks fw self t rng step =
      (case discriminator_step fw ?self2 t rng ?fake of
         Inl e \<Rightarrow> Inl e
       | Inr (self4, t4, rng', d) \<Rightarrow> Inr (self4, t4, rng', None, d))"
    using assms(3) ready_D(5) [OF assms(1,2)] gp
    by (simp add: update_networks_def Let_def)
  show ?thesis
    using dl un ds by simp
qed

text \<open>The step when the generator branch runs.\<close>

lemma update_networks_due:
  assumes "ready self" and "tr self = Some t" and "var_L self = Some x" and "netD self = Some d"
    and "update_due t step"
  shows "\<exists>lp lfe lg gtot rp rng' l_real l_fake p_real p_fake gp tot self4 t4.
           generator_loss fw self t (call fw True (netG self) x) = Inr (lp, lfe, lg, gtot)
         \<and> discriminator_loss fw self t d rng (call fw True (netG self) x)
             = Inr (rp, rng', l_real, l_fake, p_real, p_fake, gp, tot)
         \<and> update_networks fw self t rng step
             = Inr (self4, t4, rng', Some (lp, lfe, lg), (l_real, l_fake, p_real, p_fake, gp))
         \<and> netG self4 = backward_net fw tot (map_module
              (\<lambda>m. m\<lparr>params := fst (adam_step fw (optimizers self ! optimizer_G t)
                         (module_of (backward_net fw gtot (zero_grad_net fw (netG self)))))\<rparr>)
              (backward_net fw gtot (zero_grad_net fw (netG self))))
         \<and> netD self4 = Some (map_module
              (\<lambda>m. m\<lparr>params := fst (adam_step fw (optimizers self ! optimizer_D t)
                         (module_of (backward_net fw tot
                            (zero_grad_net fw (backward_net fw gtot d)))))\<rparr>)
              (backward_net fw tot (zero_grad_net fw (backward_net fw gtot d))))
         \<and> optimizers self4 = (optimizers self)
              [optimizer_G t := (optimizers self ! optimizer_G t)
                 \<lparr>opt_state := snd (adam_step fw (optimizers self ! optimizer_G t)
                     (module_of (backward_net fw gtot (zero_grad_net fw (netG self)))))\<rparr>,
               optimizer_D t := (optimizers self ! optimizer_D t)
                 \<lparr>opt_state := snd (adam_step fw (optimizers self ! optimizer_D t)
                     (module_of (backward_net fw tot
                        (zero_grad_net fw (backward_net fw gtot d)))))\<rparr>]
         \<and> t4 = t\<lparr>netF := map_option (backward_net fw gtot) (netF t), random_pt := rp,
                   netF := map_option (backward_net fw tot)
                     (map_option (backward_net fw gtot) (netF t))\<rparr>
         \<and> var_L self4 = var_L self \<and> var_H self4 = var_H self
         \<and> var_ref self4 = var_ref self \<and> opt self4 = opt self"
proof -
  let ?fake = "call fw True (netG self) x"
  let ?G0 = "zero_grad_net fw (netG self)"
  let ?self2 = "self\<lparr>netG := ?G0, fake_H := Some ?fake\<rparr>"
  note rd = ready_D [OF assms(1,2)]
  from rd obtain ref h where ref: "var_ref self = Some ref" and h: "var_H self = Some h"
    by blast
  from generator_loss_returns [OF assms(4) h rd(6,7), of fw ?fake]
  obtain lp lfe lg gtot where gl: "generator_loss fw self t ?fake = Inr (lp, lfe, lg, gtot)"
    by blast
  have "generator_loss fw ?self2 t ?fake = generator_loss fw self t ?fake"
    by (rule generator_loss_frame) simp_all
  with gl have gl2: "generator_loss fw ?self2 t ?fake = Inr (lp, lfe, lg, gtot)" by simp
  let ?GB = "backward_net fw gtot ?G0"
  let ?oG = "optimizers self ! optimizer_G t"
  let ?os3 = "(optimizers self)
      [optimizer_G t := ?oG\<lparr>opt_state := snd (adam_step fw ?oG (module_of ?GB))\<rparr>]"
  let ?self3 = "?self2\<lparr>netG := ?GB, netD := map_option (backward_net fw gtot) (netD ?self2),
      optimizers := ?os3,
      netG := map_module (\<lambda>m. m\<lparr>params := fst (adam_step fw ?oG (module_of ?GB))\<rparr>) ?GB\<rparr>"
  let ?t3 = "t\<lparr>netF := map_option (backward_net fw gtot) (netF t)\<rparr>"
  have gph: "generator_phase fw ?self2 t step ?fake = Inr (?self3, ?t3, Some (lp, lfe, lg))"
    using assms(5) gl2 by (simp add: generator_phase_def generator_step_eq)
  let ?d3 = "backward_net fw gtot d"
  from discriminator_loss_returns [of self ref t fw d rng ?fake] ref rd(8)
  obtain rp rng' l_real l_fake p_real p_fake gp tot where
    dl: "discriminator_loss fw self t d rng ?fake = Inr (rp, rng', l_real, l_fake, p_real, p_fake, gp, tot)"
    by (metis prod_cases3)
  have "discriminator_loss fw (?self3\<lparr>netD := Some (zero_grad_net fw ?d3)\<rparr>) ?t3
          (zero_grad_net fw ?d3) rng ?fake
        = discriminator_loss fw self t d rng ?fake"
    by (rule discriminator_loss_frame) simp_all
  with dl have dl3: "discriminator_loss fw (?self3\<lparr>netD := Some (zero_grad_net fw ?d3)\<rparr>) ?t3
      (zero_grad_net fw ?d3) rng ?fake = Inr (rp, rng', l_real, l_fake, p_real, p_fake, gp, tot)"
    by simp
  have d3: "netD ?self3 = Some ?d3" using assms(4) by simp
  have oD: "?os3 ! optimizer_D t = optimizers self ! optimizer_D t"
    using rd(11) by simp
  let ?DB = "backward_net fw tot (zero_grad_net fw ?d3)"
  have ds: "discriminator_step fw ?self3 ?t3 rng ?fake =
      Inr (?self3\<lparr>netG := backward_net fw tot (netG ?self3),
                  optimizers := ?os3
                    [optimizer_D t := (optimizers self ! optimizer_D t)
                       \<lparr>opt_state := snd (adam_step fw (optimizers self ! optimizer_D t)
                           (module_of ?DB))\<rparr>],
                  netD := Some (map_module
                    (\<lambda>m. m\<lparr>params := fst (adam_step fw (optimizers self ! optimizer_D t)
                               (module_of ?DB))\<rparr>) ?DB)\<rparr>,
           ?t3\<lparr>random_pt := rp, netF := map_option (backward_net fw tot) (netF ?t3)\<rparr>,
           rng', (l_real, l_fake, p_real, p_fake, gp))"
    unfolding discriminator_step_eq d3 option.case dl3 sum.case prod.case
    using oD by simp
  have un: "update_networks fw self t rng step =
      (case discriminator_step fw ?self3 ?t3 rng ?fake of
         Inl e \<Rightarrow> Inl e
       | Inr (self4, t4, rng', d) \<Rightarrow> Inr (self4, t4, rng', Some (lp, lfe, lg), d))"
    using assms(3) rd(5) gph
    by (simp add: update_networks_def Let_def)
  show ?thesis
    using gl dl un ds by simp
qed

subsection \<open>Models that are ready for a step\<close>

text \<open>
  A model built in training mode is ready once a batch is fed, and stays ready
  from one step to the next.
\<close>

lemma init_cri_pix_weight: "init_cri_pix topt = Inr pix \<Longrightarrow> fst pix \<noteq> None \<longrightarrow> snd pix \<noteq> None"
  by (auto simp: init_cri_pix_def Let_def split: if_splits)

lemma init_cri_fea_weight: "init_cri_fea topt = Inr fea \<Longrightarrow> fst fea \<noteq> None \<longrightarrow> snd fea \<noteq> None"
  by (auto simp: init_cri_fea_def Let_def split: if_splits)

lemma init_optim_ready:
  assumes "init_optim fw self pix fea d = Inr self'"
    and "optimizers self = []" and "netD self = Some d"
    and "fst pix \<noteq> None \<longrightarrow> snd pix \<noteq> None" and "fst fea \<noteq> None \<longrightarrow> snd fea \<noteq> None"
  shows "ready (self'\<lparr>var_L := Some a, var_H := Some b, var_ref := Some c\<rparr>)"
proof -
  from assms(1) init_optim_scheme [of fw self pix fea d]
  have scheme: "lr_scheme (train (opt self)) = ''MultiStepLR''"
    by (auto split: if_splits)
  have ratio: "(case D_update_ratio_opt (train (opt self)) of
                  None \<Rightarrow> 1 | Some r \<Rightarrow> if r \<noteq> 0 then r else 1) \<noteq> (0::int)"
    by (simp split: option.splits)
  from assms(1) [unfolded init_optim_def Let_def scheme if_True sum.inject]
  show ?thesis
    using assms(2-5) ratio by (auto simp: ready_def)
qed

lemma feed_data_result:
  assumes "feed_data fw self data True = Inr self'"
  shows "\<exists>a b c. self' = self\<lparr>var_L := Some a, var_H := Some b, var_ref := Some c\<rparr>"
  using assms
  by (auto simp: feed_data_def Let_def split: option.splits)

lemma constructed_ready:
  assumes "SRGANModel_init fw fs cfg = Inr self" and "is_train_opt cfg"
    and "feed_data fw self data True = Inr self'"
  shows "ready self'"
proof -
  from assms(1) obtain s1 where l: "load fw fs (init_networks fw cfg) = Inr s1"
    by (auto simp: SRGANModel_init_def split: sum.splits)
  note st = SRGANModel_init_stages [OF l assms(2)]
  from load_frame [OF l] have empty: "optimizers s1 = []"
    by (simp add: init_networks_facts)
  from st(3) obtain d where d: "netD s1 = Some d" by auto
  from assms(1) st(1) d obtain pix fea where
    pix: "init_cri_pix (train (opt s1)) = Inr pix"
    and fea: "init_cri_fea (train (opt s1)) = Inr fea"
    and io: "init_optim fw s1 pix fea d = Inr self"
    by (auto simp: init_train_def split: sum.splits)
  from feed_data_result [OF assms(3)] obtain a b c where
    "self' = self\<lparr>var_L := Some a, var_H := Some b, var_ref := Some c\<rparr>" by blast
  with init_optim_ready [OF io empty d init_cri_pix_weight [OF pix] init_cri_fea_weight [OF fea]]
  show ?thesis by simp
qed

lemma ready_preserved:
  assumes "ready self" and "optimize_parameters fw self rng step = Inr (self', rng')"
  shows "ready self'"
proof -
  from assms(1) obtain t where t: "tr self = Some t"
    by (auto simp: ready_def split: option.splits)
  note rd = ready_D [OF assms(1) t]
  from rd obtain d x where d: "netD self = Some d" and x: "var_L self = Some x" by blast
  have *: "ready (self4\<lparr>tr := Some (t4\<lparr>log_dict := l\<rparr>)\<rparr>)"
    if "netD self4 \<noteq> None" "var_L self4 = var_L self" "var_H self4 = var_H self"
      "var_ref self4 = var_ref self" "opt self4 = opt self"
      "length (optimizers self4) = length (optimizers self)"
      "t4 = t\<lparr>random_pt := rp, netF := f\<rparr>" "netF t \<noteq> None \<longrightarrow> f \<noteq> None"
      "gan_type (train (opt self)) = ''wgan-gp'' \<longrightarrow> rp \<noteq> None"
    for self4 t4 l rp f
    using that rd by (auto simp: ready_def)
  show ?thesis
  proof (cases "update_due t step")
    case True
    from update_networks_due [OF assms(1) t x d True, of fw rng]
    obtain lp lfe lg gtot rp rng'' l_real l_fake p_real p_fake gp tot self4 t4 where
      dl: "discriminator_loss fw self t d rng (call fw True (netG self) x)
             = Inr (rp, rng'', l_real, l_fake, p_real, p_fake, gp, tot)"
      and un: "update_networks fw self t rng step
             = Inr (self4, t4, rng'', Some (lp, lfe, lg), (l_real, l_fake, p_real, p_fake, gp))"
      and d4: "netD self4 \<noteq> None"
      and o4: "length (optimizers self4) = length (optimizers self)"
      and t4: "t4 = t\<lparr>random_pt := rp,
                   netF := map_option (backward_net fw tot)
                     (map_option (backward_net fw gtot) (netF t))\<rparr>"
      and fr: "var_L self4 = var_L self" "var_H self4 = var_H self"
        "var_ref self4 = var_ref self" "opt self4 = opt self"
      by fastforce
    from assms(2) t un have "self' = self4\<lparr>tr := Some
        (t4\<lparr>log_dict := setitems (log_dict t4) (log_writes fw (Some (lp, lfe, lg)) (l_real, l_fake, p_real, p_fake, gp))\<rparr>)\<rparr>"
      by (simp add: optimize_parameters_def)
    moreover have "netF t \<noteq> None \<longrightarrow>
        map_option (backward_net fw tot) (map_option (backward_net fw gtot) (netF t)) \<noteq> None"
      by simp
    ultimately show ?thesis
      using * [OF d4 fr o4 t4] discriminator_loss_random_pt [OF dl] by simp
  next
    case False
    from update_networks_skip [OF assms(1) t x d False, of fw rng]
    obtain rp rng'' l_real l_fake p_real p_fake gp tot self4 t4 where
      dl: "discriminator_loss fw self t d rng (call fw True (netG self) x)
             = Inr (rp, rng'', l_real, l_fake, p_real, p_fake, gp, tot)"
      and un: "update_networks fw self t rng step
             = Inr (self4, t4, rng'', None, (l_real, l_fake, p_real, p_fake, gp))"
      and d4: "netD self4 \<noteq> None"
      and o4: "length (optimizers self4) = length (optimizers self)"
      and t4: "t4 = t\<lparr>random_pt := rp, netF := map_option (backward_net fw tot) (netF t)\<rparr>"
      and fr: "var_L self4 = var_L self" "var_H self4 = var_H self"
        "var_ref self4 = var_ref self" "opt self4 = opt self"
      by fastforce
    from assms(2) t un have "self' = self4\<lparr>tr := Some
        (t4\<lparr>log_dict := setitems (log_dict t4) (log_writes fw None (l_real, l_fake, p_real, p_fake, gp))\<rparr>)\<rparr>"
      by (simp add: optimize_parameters_def)
    moreover have "netF t \<noteq> None \<longrightarrow> map_option (backward_net fw tot) (netF t) \<noteq> None"
      by simp
    ultimately show ?thesis
      using * [OF d4 fr o4 t4] discriminator_loss_random_pt [OF dl] by simp
  qed
qed

subsection \<open>The ordered log\<close>

lemma map_of_setitem: "map_of (setitem d k v) = (map_of d)(k \<mapsto> v)"
  by (induction d) auto

lemma map_of_setitems: "map_of (setitems d kvs) = map_of d ++ map_of (rev kvs)"
  unfolding setitems_def
proof (induction kvs arbitrary: d)
  case Nil
  then show ?case by simp
next
  case (Cons kv kvs)
  obtain k v where kv: "kv = (k, v)" by (cases kv)
  show ?case
    by (simp add: kv Cons.IH map_of_setitem map_add_def fun_eq_iff split: option.splits)
qed

lemma map_of_rev_distinct: "distinct (map fst xs) \<Longrightarrow> map_of (rev xs) = map_of xs"
proof (induction xs)
  case Nil
  then show ?case by simp
next
  case (Cons kv xs)
  obtain k v where kv: "kv = (k, v)" by (cases kv)
  from Cons.prems kv have "map_of xs k = None"
    by (simp add: map_of_eq_None_iff)
  with Cons show ?case
    by (auto simp: kv fun_eq_iff map_add_def split: option.splits)
qed

lemma setitem_fresh: "k \<notin> fst ` set d \<Longrightarrow> setitem d k v = d @ [(k, v)]"
  by (induction d) auto

lemma setitems_fresh:
  "distinct (map fst (d @ kvs)) \<Longrightarrow> setitems d kvs = d @ kvs"
  unfolding setitems_def
proof (induction kvs arbitrary: d)
  case Nil
  then show ?case by simp
next
  case (Cons kv kvs)
  obtain k v where kv: "kv = (k, v)" by (cases kv)
  from Cons.prems kv have fresh: "k \<notin> fst ` set d" by auto
  from Cons.prems kv have "distinct (map fst ((d @ [(k, v)]) @ kvs))" by simp
  from Cons.IH [OF this] show ?case
    by (simp add: kv setitem_fresh [OF fresh])
qed

lemma distinct_log_writes: "distinct (map fst (log_writes fw g d))"
  by (auto simp: log_writes_def split: prod.splits option.splits)

lemma log_writes_generator_keys:
  "map_of (log_writes fw None d) ''l_g_pix'' = None"
  "map_of (log_writes fw None d) ''l_g_fea'' = None"
  "map_of (log_writes fw None d) ''l_g_gan'' = None"
  "map_of (log_writes fw (Some (lp, l_fake, lg)) d) ''l_g_gan'' = Some (Item lg)"
  by (cases d rule: prod_cases5; simp add: log_writes_def split: option.splits)+

subsection \<open>Runs on the concrete framework\<close>

lemma feed_data_toy: "feed_data toy model0 batch0 True = Inr model1"
  by (simp add: feed_data_def batch0_def model0_def model1_def Let_def)

lemma ready_model1: "ready model1"
  by (simp add: ready_def model1_def model0_def)

lemmas step_defs =
  optimize_parameters_def step_metrics_def update_networks_def generator_phase_def update_due_def
  generator_step_eq generator_loss_def pixel_term_def feature_term_def
  discriminator_step_eq discriminator_loss_def
  log_writes_def setitems_def net_defs Let_def

lemma step2_toy: "optimize_parameters toy model1 0 2 = Inr (model2, 0)"
  by (simp add: step_defs model1_def model0_def model2_def)

lemma ready_model2: "ready model2"
  by (simp add: ready_def model2_def)

lemma step3_toy: "optimize_parameters toy model2 0 3 = Inr (model3, 0)"
  by (simp add: step_defs model2_def model3_def)

lemma step3_metrics_toy:
  "step_metrics toy model2 0 3 =
     Inr [(''l_d_real'', Item (- 27, CPU)), (''l_d_fake'', Item (- 574, CPU)),
          (''D_real'', Tensor (28, CPU)), (''D_fake'', Tensor (- 574, CPU))]"
  by (simp add: step_defs model2_def)

lemma model1w_constructed:
  "(case SRGANModel_init toy Map.empty cfg_wgan of
      Inl e \<Rightarrow> Inl e
    | Inr s \<Rightarrow> feed_data toy s batch0 True) = Inr model1w"
  by (simp add: cfg_wgan_def SRGANModel_init_def load_def init_networks_def BaseModel_init_def
      BaseModel.defs SRGANModel.defs net_defs init_train_def init_cri_pix_def init_cri_fea_def
      init_optim_def Let_def feed_data_def batch0_def model1w_def upt_rec numeral_2_eq_2)

lemma ready_model1w: "ready model1w"
  by (simp add: ready_def model1w_def cfg_wgan_def)

lemma model1_attrs:
  "tr model1 = Some (the (tr model1))" "var_L model1 = Some (1, CPU)"
  "var_ref model1 = Some (4, CPU)"
  "netD model1 = Some (DataParallel \<lparr>params = 2, grads = 0, training = True\<rparr>)"
  by (simp_all add: model1_def model0_def)

lemma model1w_attrs:
  "tr model1w = Some (the (tr model1w))" "var_L model1w = Some (1, CPU)"
  "var_ref model1w = Some (4, CPU)"
  "netD model1w = Some (DataParallel \<lparr>params = 2, grads = 0, training = True\<rparr>)"
  by (simp_all add: model1w_def)

subsection \<open>\<open>optimize_parameters\<close>: the generator update\<close>



subsection \<open>\<open>optimize_parameters\<close>: the discriminator update\<close>

text \<open>
  Claim C3. On a model that is ready for a step, for every \<open>step\<close>, the call returns
  and has updated the discriminator: the real loss is the adversarial loss of the
  discriminator on the reference against the target "real", the fake loss that on the
  detached generator output against "fake". For \<open>wgan-gp\<close> the stored coefficient
  tensor, resized to the batch if needed, is refilled from the random generator (whose
  state advances), the interpolate of the detached output and the reference is marked
  as requiring gradients, and the weighted gradient penalty on it is added to the sum of
  the two losses; for any other type the sum is the total and the random generator is
  untouched. The new discriminator content is what the discriminator's optimizer makes
  of the gradients of that total accumulated on cleared gradients (\<open>g\<close> is what the
  generator branch left there), and that optimizer's state is stepped.
\<close>

theorem optimize_parameters_discriminator_update:
  assumes "ready self" and "tr self = Some t" and "var_L self = Some x"
    and "var_ref self = Some ref" and "netD self = Some d"
  shows "case optimize_parameters fw self rng step of
           Inl e \<Rightarrow> False
         | Inr (self', rng') \<Rightarrow>
             (case discriminator_loss fw self t d rng (call fw True (netG self) x) of
                Inl e \<Rightarrow> False
              | Inr (random_pt', rng'', l_d_real, l_d_fake, pred_d_real, pred_d_fake,
                     l_d_gp, l_d_total) \<Rightarrow>
                  rng' = rng''
                  \<and> l_d_real = gan_loss fw (cri_gan t) (call fw True d ref) True
                  \<and> l_d_fake =
                      gan_loss fw (cri_gan t)
                        (call fw True d (detach fw (call fw True (netG self) x))) False
                  \<and> (if gan_type (train (opt self)) = ''wgan-gp''
                      then (\<exists>r w c. random_pt t = Some r \<and> l_gp_w t = Some w \<and> cri_gp t = Some c
                             \<and> (let r1 = (if size0 fw r \<noteq> size0 fw ref
                                            then resize fw r [size0 fw ref, 1, 1, 1] else r);
                                     u = uniform fw r1 rng;
                                     interp = set_requires_grad fw
                                       (add fw
                                          (mul fw (fst u) (detach fw (call fw True (netG self) x)))
                                          (mul fw (rsub fw 1 (fst u)) ref));
                                     l_gp = rmul fw w (gp_loss fw c interp (call fw True d interp))
                                 in rng' = snd u \<and> l_d_gp = Some l_gp
                                    \<and> l_d_total = add fw (add fw l_d_real l_d_fake) l_gp))
                      else rng' = rng \<and> l_d_gp = None
                           \<and> l_d_total = add fw l_d_real l_d_fake)
                  \<and> (\<exists>g. let m0 = (module_of d)\<lparr>grads := zero_grad fw g\<rparr>;
                              m1 = m0\<lparr>grads := backward fw l_d_total m0\<rparr>;
                              u = adam_step fw (optimizers self ! optimizer_D t) m1
                          in map_option module_of (netD self') = Some (m1\<lparr>params := fst u\<rparr>)
                             \<and> optimizers self' ! optimizer_D t =
                                 (optimizers self ! optimizer_D t)\<lparr>opt_state := snd u\<rparr>))"
proof -
  note rd = ready_D [OF assms(1,2)]
  let ?fake = "call fw True (netG self) x"
  have main: ?thesis
    if dl: "discriminator_loss fw self t d rng ?fake = Inr (rp, rng', l_real, l_fake, p_real, p_fake, gp, tot)"
      and un: "update_networks fw self t rng step = Inr (self4, t4, rng', g, (l_real, l_fake, p_real, p_fake, gp))"
      and d4: "map_option module_of (netD self4) =
          Some (((module_of d)\<lparr>grads := zero_grad fw g3\<rparr>)
            \<lparr>grads := backward fw tot ((module_of d)\<lparr>grads := zero_grad fw g3\<rparr>),
             params := fst (adam_step fw (optimizers self ! optimizer_D t)
               (((module_of d)\<lparr>grads := zero_grad fw g3\<rparr>)
                 \<lparr>grads := backward fw tot ((module_of d)\<lparr>grads := zero_grad fw g3\<rparr>)\<rparr>))\<rparr>)"
      and o4: "optimizers self4 ! optimizer_D t =
          (optimizers self ! optimizer_D t)
            \<lparr>opt_state := snd (adam_step fw (optimizers self ! optimizer_D t)
               (((module_of d)\<lparr>grads := zero_grad fw g3\<rparr>)
                 \<lparr>grads := backward fw tot ((module_of d)\<lparr>grads := zero_grad fw g3\<rparr>)\<rparr>))\<rparr>"
    for rp rng' l_real l_fake p_real p_fake gp tot self4 t4 g g3
  proof -
    note parts = discriminator_loss_parts [OF dl assms(4) rd(8)]
    have upd: "\<exists>g. let m0 = (module_of d)\<lparr>grads := zero_grad fw g\<rparr>;
                      m1 = m0\<lparr>grads := backward fw tot m0\<rparr>;
                      u = adam_step fw (optimizers self ! optimizer_D t) m1
                  in map_option module_of (netD (self4\<lparr>tr := X\<rparr>)) = Some (m1\<lparr>params := fst u\<rparr>)
                     \<and> optimizers (self4\<lparr>tr := X\<rparr>) ! optimizer_D t =
                         (optimizers self ! optimizer_D t)\<lparr>opt_state := snd u\<rparr>" for X
      using d4 o4 by (intro exI [of _ g3]) (simp add: Let_def)
    show ?thesis
      unfolding optimize_parameters_def assms(2) option.case un sum.case prod.case dl
      by (intro conjI refl parts upd)
  qed
  show ?thesis
  proof (cases "update_due t step")
    case True
    from update_networks_due [OF assms(1,2,3,5) True, of fw rng]
    obtain lp lfe lg gtot rp rng' l_real l_fake p_real p_fake gp tot self4 t4 where
      dl: "discriminator_loss fw self t d rng ?fake = Inr (rp, rng', l_real, l_fake, p_real, p_fake, gp, tot)"
      and un: "update_networks fw self t rng step
             = Inr (self4, t4, rng', Some (lp, lfe, lg), (l_real, l_fake, p_real, p_fake, gp))"
      and d4: "netD self4 = Some (map_module
              (\<lambda>m. m\<lparr>params := fst (adam_step fw (optimizers self ! optimizer_D t)
                         (module_of (backward_net fw tot
                            (zero_grad_net fw (backward_net fw gtot d)))))\<rparr>)
              (backward_net fw tot (zero_grad_net fw (backward_net fw gtot d))))"
      and o4: "optimizers self4 = (optimizers self)
              [optimizer_G t := (optimizers self ! optimizer_G t)
                 \<lparr>opt_state := snd (adam_step fw (optimizers self ! optimizer_G t)
                     (module_of (backward_net fw gtot (zero_grad_net fw (netG self)))))\<rparr>,
               optimizer_D t := (optimizers self ! optimizer_D t)
                 \<lparr>opt_state := snd (adam_step fw (optimizers self ! optimizer_D t)
                     (module_of (backward_net fw tot
                        (zero_grad_net fw (backward_net fw gtot d)))))\<rparr>]"
      by blast
    show ?thesis
    proof (rule main [OF dl un, of "backward fw gtot (module_of d)"])
      show "map_option module_of (netD self4) =
          Some (((module_of d)\<lparr>grads := zero_grad fw (backward fw gtot (module_of d))\<rparr>)
            \<lparr>grads := backward fw tot
               ((module_of d)\<lparr>grads := zero_grad fw (backward fw gtot (module_of d))\<rparr>),
             params := fst (adam_step fw (optimizers self ! optimizer_D t)
               (((module_of d)\<lparr>grads := zero_grad fw (backward fw gtot (module_of d))\<rparr>)
                 \<lparr>grads := backward fw tot
                    ((module_of d)\<lparr>grads := zero_grad fw (backward fw gtot (module_of d))\<rparr>)\<rparr>))\<rparr>)"
        unfolding d4
        by (simp add: module_of_map_module module_of_backward_net module_of_zero_grad_net)
      show "optimizers self4 ! optimizer_D t =
          (optimizers self ! optimizer_D t)
            \<lparr>opt_state := snd (adam_step fw (optimizers self ! optimizer_D t)
               (((module_of d)\<lparr>grads := zero_grad fw (backward fw gtot (module_of d))\<rparr>)
                 \<lparr>grads := backward fw tot
                    ((module_of d)\<lparr>grads := zero_grad fw (backward fw gtot (module_of d))\<rparr>)\<rparr>))\<rparr>"
        unfolding o4 using rd(10)
        by (simp add: module_of_backward_net module_of_zero_grad_net)
    qed
  next
    case False
    from update_networks_skip [OF assms(1,2,3,5) False, of fw rng]
    obtain rp rng' l_real l_fake p_real p_fake gp tot self4 t4 where
      dl: "discriminator_loss fw self t d rng ?fake = Inr (rp, rng', l_real, l_fake, p_real, p_fake, gp, tot)"
      and un: "update_networks fw self t rng step = Inr (self4, t4, rng', None, (l_real, l_fake, p_real, p_fake, gp))"
      and d4: "netD self4 = Some (map_module
              (\<lambda>m. m\<lparr>params := fst (adam_step fw (optimizers self ! optimizer_D t)
                         (module_of (backward_net fw tot (zero_grad_net fw d))))\<rparr>)
              (backward_net fw tot (zero_grad_net fw d)))"
      and o4: "optimizers self4 = (optimizers self)
              [optimizer_D t := (optimizers self ! optimizer_D t)
                 \<lparr>opt_state := snd (adam_step fw (optimizers self ! optimizer_D t)
                     (module_of (backward_net fw tot (zero_grad_net fw d))))\<rparr>]"
      by blast
    show ?thesis
    proof (rule main [OF dl un, of "grads (module_of d)"])
      show "map_option module_of (netD self4) =
          Some (((module_of d)\<lparr>grads := zero_grad fw (grads (module_of d))\<rparr>)
            \<lparr>grads := backward fw tot
               ((module_of d)\<lparr>grads := zero_grad fw (grads (module_of d))\<rparr>),
             params := fst (adam_step fw (optimizers self ! optimizer_D t)
               (((module_of d)\<lparr>grads := zero_grad fw (grads (module_of d))\<rparr>)
                 \<lparr>grads := backward fw tot
                    ((module_of d)\<lparr>grads := zero_grad fw (grads (module_of d))\<rparr>)\<rparr>))\<rparr>)"
        unfolding d4
        by (simp add: module_of_map_module module_of_backward_net module_of_zero_grad_net)
      show "optimizers self4 ! optimizer_D t =
          (optimizers self ! optimizer_D t)
            \<lparr>opt_state := snd (adam_step fw (optimizers self ! optimizer_D t)
               (((module_of d)\<lparr>grads := zero_grad fw (grads (module_of d))\<rparr>)
                 \<lparr>grads := backward fw tot
                    ((module_of d)\<lparr>grads := zero_grad fw (grads (module_of d))\<rparr>)\<rparr>))\<rparr>"
        unfolding o4 using rd(10)
        by (simp add: module_of_backward_net module_of_zero_grad_net)
    qed
  qed
qed

text \<open>
  A \<open>wgan-gp\<close> step that skips the generator, and a plain step that updates it: the
  discriminator is updated in both.
\<close>

theorem optimize_parameters_discriminator_update_witness:
  "(case optimize_parameters toy model1w 5 3 of
      Inl e \<Rightarrow> False
    | Inr (self', rng') \<Rightarrow>
        rng' = 6 \<and> map_option (\<lambda>n. params (module_of n)) (netD self') = Some 337
        \<and> params (module_of (netG self')) = 1)
   \<and> (case optimize_parameters toy model1 5 2 of
      Inl e \<Rightarrow> False
    | Inr (self', rng') \<Rightarrow>
        rng' = 5 \<and> map_option (\<lambda>n. params (module_of n)) (netD self') = Some 7
        \<and> params (module_of (netG self')) = - 82)"
  using optimize_parameters_discriminator_update [OF ready_model1w model1w_attrs,
      where fw = toy and rng = 5 and step = 3]
    optimize_parameters_discriminator_update [OF ready_model1 model1_attrs,
      where fw = toy and rng = 5 and step = 2]
  by (simp add: step_defs model1w_def model1_def model0_def cfg_wgan_def)

subsection \<open>\<open>optimize_parameters\<close>: the loss log\<close>

text \<open>
  Claim C1, as the code has it. The log is created once, by the constructor, and is
  never cleared. After \<open>optimize_parameters(step)\<close> on a ready model, \<open>get_current_log\<close>
  returns the log from before the call with the metrics of this call written over it:
  every metric computed in the call is there under its name with its new value, and an
  entry under any other name is the one from before. When the names in the old log and
  in the call are all different (in particular when the old log is empty, as at the
  first call) the new log is the old one followed by the metrics of the call. A call
  that skips the generator update computes no generator loss.
\<close>

theorem log_dict_accumulates:
  assumes "ready self" and "tr self = Some t"
  shows "case optimize_parameters fw self rng step of
           Inl e \<Rightarrow> False
         | Inr (self', rng') \<Rightarrow>
             (case step_metrics fw self rng step of
                Inl e \<Rightarrow> False
              | Inr ms \<Rightarrow>
                  get_current_log self' = Inr (setitems (log_dict t) ms)
                  \<and> map_of (setitems (log_dict t) ms) = map_of (log_dict t) ++ map_of ms
                  \<and> (distinct (map fst (log_dict t @ ms)) \<longrightarrow>
                        setitems (log_dict t) ms = log_dict t @ ms)
                  \<and> (\<not> update_due t step \<longrightarrow>
                        map_of ms ''l_g_pix'' = None \<and> map_of ms ''l_g_fea'' = None
                        \<and> map_of ms ''l_g_gan'' = None))"
proof -
  note rd = ready_D [OF assms]
  from rd obtain d x where d: "netD self = Some d" and x: "var_L self = Some x" by blast
  have *: "get_current_log (self4\<lparr>tr := Some (t4\<lparr>log_dict := setitems (log_dict t4) ms\<rparr>)\<rparr>)
             = Inr (setitems (log_dict t) ms)
           \<and> map_of (setitems (log_dict t) ms) = map_of (log_dict t) ++ map_of ms
           \<and> (distinct (map fst (log_dict t @ ms)) \<longrightarrow> setitems (log_dict t) ms = log_dict t @ ms)"
    if "log_dict t4 = log_dict t" and "ms = log_writes fw g dl" for self4 t4 ms g dl
    using that
    by (simp add: get_current_log_def map_of_setitems map_of_rev_distinct distinct_log_writes
        setitems_fresh)
  show ?thesis
  proof (cases "update_due t step")
    case True
    from update_networks_due [OF assms x d True, of fw rng]
    obtain lp lfe lg rp rng' l_real l_fake p_real p_fake gp self4 t4 where
      un: "update_networks fw self t rng step
             = Inr (self4, t4, rng', Some (lp, lfe, lg), (l_real, l_fake, p_real, p_fake, gp))"
      and t4: "log_dict t4 = log_dict t"
      by fastforce
    show ?thesis
      using assms(2) un True * [OF t4 refl]
      by (simp add: optimize_parameters_def step_metrics_def)
  next
    case False
    from update_networks_skip [OF assms x d False, of fw rng]
    obtain rp rng' l_real l_fake p_real p_fake gp self4 t4 where
      un: "update_networks fw self t rng step = Inr (self4, t4, rng', None, (l_real, l_fake, p_real, p_fake, gp))"
      and t4: "log_dict t4 = log_dict t"
      by fastforce
    show ?thesis
      using assms(2) un False * [OF t4 refl]
      by (simp add: optimize_parameters_def step_metrics_def log_writes_generator_keys)
  qed
qed

theorem log_dict_accumulates_witness:
  "optimize_parameters toy model2 0 3 = Inr (model3, 0)
   \<and> get_current_log model3 =
       Inr (setitems
         [(''l_g_pix'', Item (3, CPU)), (''l_g_fea'', Item (81, CPU)),
          (''l_g_gan'', Item (- 1, CPU)), (''l_d_real'', Item (- 7, CPU)),
          (''l_d_fake'', Item (2, CPU)), (''D_real'', Tensor (8, CPU)),
          (''D_fake'', Tensor (2, CPU))]
         [(''l_d_real'', Item (- 27, CPU)), (''l_d_fake'', Item (- 574, CPU)),
          (''D_real'', Tensor (28, CPU)), (''D_fake'', Tensor (- 574, CPU))])"
proof -
  have t: "tr model2 = Some (the (tr model2))"
    by (simp add: model2_def)
  have l: "log_dict (the (tr model2)) =
      [(''l_g_pix'', Item (3, CPU)), (''l_g_fea'', Item (81, CPU)),
       (''l_g_gan'', Item (- 1, CPU)), (''l_d_real'', Item (- 7, CPU)),
       (''l_d_fake'', Item (2, CPU)), (''D_real'', Tensor (8, CPU)),
       (''D_fake'', Tensor (2, CPU))]"
    by (simp add: model2_def)
  from log_dict_accumulates [OF ready_model2 t, where fw = toy and rng = 0 and step = 3]
  show ?thesis
    by (simp add: step3_toy step3_metrics_toy l)
qed

text \<open>
  The claim as stated fails: step 3 skips the generator update and computes four
  metrics, and the log afterwards still holds the three generator losses of step 2.
\<close>

theorem log_dict_keeps_stale_entry:
  "feed_data toy model0 batch0 True = Inr model1
   \<and> optimize_parameters toy model1 0 2 = Inr (model2, 0)
   \<and> optimize_parameters toy model2 0 3 = Inr (model3, 0)
   \<and> step_metrics toy model2 0 3 =
       Inr [(''l_d_real'', Item (- 27, CPU)), (''l_d_fake'', Item (- 574, CPU)),
            (''D_real'', Tensor (28, CPU)), (''D_fake'', Tensor (- 574, CPU))]
   \<and> get_current_log model3 =
       Inr [(''l_g_pix'', Item (3, CPU)), (''l_g_fea'', Item (81, CPU)),
            (''l_g_gan'', Item (- 1, CPU)), (''l_d_real'', Item (- 27, CPU)),
            (''l_d_fake'', Item (- 574, CPU)), (''D_real'', Tensor (28, CPU)),
            (''D_fake'', Tensor (- 574, CPU))]
   \<and> get_current_log model3 \<noteq> step_metrics toy model2 0 3"
  by (simp add: feed_data_toy step2_toy step3_toy step3_metrics_toy get_current_log_def model3_def)

end
